theory Spec2Isabelle
  imports Main "HOL-Library.Word" "HOL-Library.Signed_Division"
begin

unbundle bit_operations_syntax

section \<open>Shared types\<close>

text \<open>
  A record digest (\<open>cf_digest\<close>) is 20 bytes. A partition id is a small number
  computed from the digest by \<open>as_partition_getid\<close>, which belongs to the partition
  layer and is taken as a parameter wherever it is called.
\<close>

type_synonym cf_digest = "8 word list"
type_synonym as_partition_id = nat
type_synonym cf_node = "64 word"

record partition_layer =
  as_partition_getid :: "cf_digest \<Rightarrow> as_partition_id"

section \<open>The aggregation stream (base/aggr.c)\<close>

subsection \<open>Data\<close>

text \<open>
  \<open>as_index_keys_arr\<close>: one batch of record identifiers. \<open>num\<close> is the number of
  valid entries; \<open>pindex_digs\<close> and \<open>sindex_keys\<close> are the two parallel arrays
  (their length here is the capacity of the C arrays). Secondary keys are opaque to the
  stream and modelled as numbers.
\<close>

record as_index_keys_arr =
  num :: nat
  pindex_digs :: "cf_digest list"
  sindex_keys :: "nat list"

text \<open>The fields of a reservation that \<open>aopen\<close> copies into the transaction.\<close>

record aggr_reservation =
  rsv_state :: nat
  rsv_pid :: as_partition_id
  rsv_p :: nat
  rsv_tree :: nat
  rsv_cluster_key :: "64 word"
  rsv_sub_tree :: nat

text \<open>
  The hook vector of an aggregation call. A hook that is a null pointer in C is
  \<open>None\<close> (or \<open>False\<close> for \<open>ptn_release\<close> and \<open>set_error\<close>, which return nothing).
  The reserve hook answers with the reservation it made or with nothing; the pre-check
  hook sees the record (identified by its digest) and the secondary key.
\<close>

record as_aggr_hooks =
  hook_ptn_reserve :: "(as_partition_id \<Rightarrow> aggr_reservation option) option"
  hook_ptn_release :: bool
  hook_set_error :: bool
  hook_pre_check :: "(cf_digest \<Rightarrow> nat \<Rightarrow> bool) option"

record as_aggr_call =
  aggr_hooks :: "as_aggr_hooks option"

text \<open>What the stream does to its collaborators, in the order it does it.\<close>

datatype aggr_event =
    PTN_RESERVE as_partition_id
  | PTN_RELEASE "aggr_reservation option"
  | UDF_RECORD_OPEN cf_digest
  | UDF_RECORD_CLOSE
  | AS_VAL_RESERVE

text \<open>
  \<open>aggr_obj\<close>, together with the parts of the record cloak and of the transaction that
  the stream writes (\<open>urecord->keyd\<close>, \<open>urecord->tr->rsv\<close>, \<open>urecord->tr->keyd\<close>,
  \<open>r_ref->skip_lock\<close>). \<open>iter\<close> holds the list elements the iterator has not
  returned yet; \<open>keys_arr\<close> is \<open>None\<close> for the null pointer. The offset is a C
  \<open>int\<close> that only ever counts up from 0 to the batch size, so it is a \<open>nat\<close>.
  \<open>log\<close> collects the calls made to collaborators.
\<close>

record aggr_obj =
  iter :: "as_index_keys_arr list"
  keys_arr :: "as_index_keys_arr option"
  keys_arr_offset :: nat
  rec_open :: bool
  rsv :: "aggr_reservation option"
  call :: "as_aggr_call option"
  urecord_keyd :: cf_digest
  urecord_tr_rsv :: aggr_reservation
  urecord_tr_keyd :: cf_digest
  skip_lock :: bool
  log :: "aggr_event list"

text \<open>
  The collaborators of the stream that are not hooks: the partition id of a digest,
  whether opening the record with a given digest succeeds (\<open>udf_record_open\<close> returns
  0 on success), and what the macro \<open>AS_PARTITION_RESERVATION_INIT\<close> of the
  partition header makes of the reservation slot of the transaction.
\<close>

record aggr_env = partition_layer +
  udf_record_open :: "cf_digest \<Rightarrow> int"
  AS_PARTITION_RESERVATION_INIT :: "aggr_reservation \<Rightarrow> aggr_reservation"

datatype aggr_fault = NULL_KEYS_ARR | INDEX_PAST_ARRAY nat

subsection \<open>Hooks\<close>

definition ptn_reserve ::
  "aggr_obj \<Rightarrow> as_partition_id \<Rightarrow> aggr_reservation option \<times> aggr_obj" where
  "ptn_reserve aobj pid =
     (case call aobj of
        None \<Rightarrow> (None, aobj)
      | Some c \<Rightarrow>
          (case aggr_hooks c of
             None \<Rightarrow> (None, aobj)
           | Some h \<Rightarrow>
               (case hook_ptn_reserve h of
                  None \<Rightarrow> (None, aobj)
                | Some f \<Rightarrow> (f pid, aobj\<lparr>log := log aobj @ [PTN_RESERVE pid]\<rparr>))))"

definition ptn_release :: "aggr_obj \<Rightarrow> aggr_obj" where
  "ptn_release aobj =
     (case call aobj of
        None \<Rightarrow> aobj
      | Some c \<Rightarrow>
          (case aggr_hooks c of
             None \<Rightarrow> aobj
           | Some h \<Rightarrow>
               if hook_ptn_release h
               then aobj\<lparr>log := log aobj @ [PTN_RELEASE (rsv aobj)]\<rparr>
               else aobj))"

definition pre_check :: "aggr_obj \<Rightarrow> nat \<Rightarrow> bool" where
  "pre_check aobj skey =
     (case call aobj of
        None \<Rightarrow> True
      | Some c \<Rightarrow>
          (case aggr_hooks c of
             None \<Rightarrow> True
           | Some h \<Rightarrow>
               (case hook_pre_check h of
                  None \<Rightarrow> True
                | Some f \<Rightarrow> f (urecord_keyd aobj) skey)))"

subsection \<open>Opening and closing the record\<close>

definition aopen :: "aggr_env \<Rightarrow> aggr_obj \<Rightarrow> cf_digest \<Rightarrow> int \<times> aggr_obj" where
  "aopen env aobj digest =
     (let pid = as_partition_getid env digest;
          a1 = aobj\<lparr>urecord_keyd := digest,
                    urecord_tr_rsv := AS_PARTITION_RESERVATION_INIT env (urecord_tr_rsv aobj)\<rparr>;
          (r, a2) = ptn_reserve a1 pid;
          a3 = a2\<lparr>rsv := r\<rparr>
      in case r of
           None \<Rightarrow> (- 1, a3)
         | Some got \<Rightarrow>
             (let a4 = a3\<lparr>urecord_tr_rsv := (urecord_tr_rsv a3)\<lparr>rsv_state := rsv_state got,
                                                  rsv_pid := rsv_pid got,
                                                  rsv_p := rsv_p got,
                                                  rsv_tree := rsv_tree got,
                                                  rsv_cluster_key := rsv_cluster_key got,
                                                  rsv_sub_tree := rsv_sub_tree got\<rparr>,
                            urecord_tr_keyd := urecord_keyd a3,
                            skip_lock := False\<rparr>;
                  a5 = a4\<lparr>log := log a4 @ [UDF_RECORD_OPEN (urecord_keyd a4)]\<rparr>
              in if udf_record_open env (urecord_keyd a4) = 0
                 then (0, a5\<lparr>rec_open := True\<rparr>)
                 else (- 1, ptn_release a5)))"

definition aclose :: "aggr_obj \<Rightarrow> aggr_obj" where
  "aclose aobj =
     (if rec_open aobj
      then (ptn_release (aobj\<lparr>log := log aobj @ [UDF_RECORD_CLOSE]\<rparr>))\<lparr>rec_open := False\<rparr>
      else aobj)"

subsection \<open>The cursor: \<open>get_next\<close>\<close>

text \<open>
  \<open>cf_ll_getNext\<close>: the next element of the linked list of batches, or nothing at its
  end; the iterator moves on.
\<close>

definition cf_ll_getNext :: "'a list \<Rightarrow> 'a option \<times> 'a list" where
  "cf_ll_getNext it = (case it of [] \<Rightarrow> (None, []) | e # rest \<Rightarrow> (Some e, rest))"

text \<open>
  \<open>get_next\<close> returns the address \<open>&aobj->keys_arr->pindex_digs[aobj->keys_arr_offset]\<close>
  or the null pointer. The address is modelled by the index it points at, in the batch
  that \<open>keys_arr\<close> holds on return.
\<close>

definition get_next :: "aggr_obj \<Rightarrow> nat option \<times> aggr_obj" where
  "get_next aobj =
     (let a1 = (if keys_arr aobj = None
                then (let (ele, it) = cf_ll_getNext (iter aobj)
                      in aobj\<lparr>iter := it, keys_arr := ele, keys_arr_offset := 0\<rparr>)
                else aobj)
      in case keys_arr a1 of
           None \<Rightarrow> (None, a1)
         | Some ka \<Rightarrow>
             if num ka = keys_arr_offset a1
             then (case cf_ll_getNext (iter a1) of
                     (None, it) \<Rightarrow> (None, a1\<lparr>iter := it\<rparr>)
                   | (Some ka', it) \<Rightarrow>
                       (Some 0, a1\<lparr>iter := it, keys_arr_offset := 0, keys_arr := Some ka'\<rparr>))
             else (Some (keys_arr_offset a1 + 1),
                   a1\<lparr>keys_arr_offset := keys_arr_offset a1 + 1\<rparr>))"

text \<open>The results of \<open>n\<close> successive calls of \<open>get_next\<close>, first call first.\<close>

fun get_next_calls :: "nat \<Rightarrow> aggr_obj \<Rightarrow> nat option list" where
  "get_next_calls 0 aobj = []"
| "get_next_calls (Suc n) aobj =
     (case get_next aobj of (r, a1) \<Rightarrow> r # get_next_calls n a1)"

subsection \<open>The input stream: \<open>istream_read\<close>\<close>

text \<open>
  The loop of \<open>istream_read\<close> runs until a record is open. It leaves early with the
  null value (\<open>Inr False\<close>) when the test on \<open>get_next\<close> says so. Reading
  \<open>aobj->keys_arr->pindex_digs[...]\<close> through a null \<open>keys_arr\<close>, or past the array,
  is a fault of the C program; so is handing the pre-check hook a secondary key from
  past the array. The loop need not end (a record that never opens at the
  end of the list is retried for ever), so it is a partial function: \<open>None\<close> means it
  does not return.
\<close>

partial_function (option) istream_read_loop ::
  "aggr_env \<Rightarrow> aggr_obj \<Rightarrow> ((aggr_fault + bool) \<times> aggr_obj) option" where
  "istream_read_loop env aobj =
     (if rec_open aobj then Some (Inr True, aobj)
      else (case get_next aobj of
              (Some p, a1) \<Rightarrow> Some (Inr False, a1)
            | (None, a1) \<Rightarrow>
                (case keys_arr a1 of
                   None \<Rightarrow> Some (Inl NULL_KEYS_ARR, a1)
                 | Some ka \<Rightarrow>
                     if keys_arr_offset a1 < length (pindex_digs ka)
                     then (case aopen env a1 (pindex_digs ka ! keys_arr_offset a1) of
                             (rv, a2) \<Rightarrow>
                               if rv = 0
                               then (if keys_arr_offset a1 < length (sindex_keys ka)
                                     then (if pre_check a2 (sindex_keys ka ! keys_arr_offset a1)
                                           then istream_read_loop env a2
                                           else istream_read_loop env (aclose a2))
                                     else Some (Inl (INDEX_PAST_ARRAY (keys_arr_offset a1)), a2))
                               else istream_read_loop env a2)
                     else Some (Inl (INDEX_PAST_ARRAY (keys_arr_offset a1)), a1))))"

declare istream_read_loop.simps [code]

text \<open>
  \<open>istream_read\<close>: the value returned is the record cloak (\<open>Some\<close> of the digest it
  stands on) or the null value that ends the stream (\<open>None\<close>).
\<close>

definition istream_read ::
  "aggr_env \<Rightarrow> aggr_obj \<Rightarrow> ((aggr_fault + cf_digest option) \<times> aggr_obj) option" where
  "istream_read env aobj =
     (case istream_read_loop env (aclose aobj) of
        None \<Rightarrow> None
      | Some (Inl f, a1) \<Rightarrow> Some (Inl f, a1)
      | Some (Inr False, a1) \<Rightarrow> Some (Inr None, a1)
      | Some (Inr True, a1) \<Rightarrow>
          Some (Inr (Some (urecord_keyd a1)), a1\<lparr>log := log a1 @ [AS_VAL_RESERVE]\<rparr>))"

section \<open>The transaction service (base/thr_tsvc.c)\<close>

text \<open>
  The dispatcher \<open>process_transaction\<close> and the router \<open>thr_tsvc_enqueue\<close>. Calls
  that only log (\<open>cf_warning\<close>, \<open>cf_debug\<close>) or count (\<open>cf_atomic64_incr\<close>) are
  left out: nothing the two functions read depends on them.
\<close>

subsection \<open>Data\<close>

text \<open>
  The enumerations of the headers the dispatcher includes. Each has one more
  constructor for "any other value", so that the \<open>default:\<close> branches of the source
  stay branches of the model.
\<close>

datatype transaction_origin =
  FROM_CLIENT | FROM_PROXY | FROM_BATCH | FROM_IUDF | FROM_NSUP | FROM_UNDEF

datatype transaction_status =
  TRANS_DONE_ERROR | TRANS_DONE_SUCCESS | TRANS_IN_PROGRESS | TRANS_WAITING | TRANS_INVALID int

datatype proto_result =
    AS_PROTO_RESULT_OK
  | AS_PROTO_RESULT_FAIL_UNKNOWN
  | AS_PROTO_RESULT_FAIL_PARAMETER
  | AS_PROTO_RESULT_FAIL_TIMEOUT
  | AS_PROTO_RESULT_FAIL_UNAVAILABLE
  | AS_PROTO_RESULT_FAIL_NAMESPACE
  | AS_PROTO_RESULT_OTHER nat

datatype proto_type = PROTO_TYPE_AS_MSG | PROTO_TYPE_INTERNAL_XDR | PROTO_TYPE_OTHER nat

datatype as_msg_field_type =
    AS_MSG_FIELD_TYPE_NAMESPACE
  | AS_MSG_FIELD_TYPE_SET
  | AS_MSG_FIELD_TYPE_KEY
  | AS_MSG_FIELD_TYPE_DIGEST_RIPE

datatype perm =
  PERM_NONE | PERM_READ | PERM_WRITE | PERM_QUERY | PERM_UDF_QUERY | PERM_SCAN | PERM_UDF_SCAN

datatype rsv_mode = RSV_READ | RSV_WRITE | RSV_MIGRATE

datatype executor = AS_DELETE_START | AS_UDF_START | AS_WRITE_START | AS_READ_START

text \<open>
  The bits the dispatcher tests. Their values come from the protocol and transaction
  headers; no result below depends on which bit each one is.
\<close>

definition AS_MSG_INFO1_READ :: "8 word" where "AS_MSG_INFO1_READ = 1"
definition AS_MSG_INFO2_WRITE :: "8 word" where "AS_MSG_INFO2_WRITE = 1"
definition FROM_FLAG_SHIPPED_OP :: "8 word" where "FROM_FLAG_SHIPPED_OP = 4"

text \<open>
  The message: the two info bytes, the time-to-live in milliseconds, and the table of
  fields, each a type and its value bytes, in message order.
\<close>

record as_msg =
  info1 :: "8 word"
  info2 :: "8 word"
  transaction_ttl :: "32 word"
  msg_fields :: "(as_msg_field_type \<times> 8 word list) list"

text \<open>
  The reservation slot \<open>tr->rsv\<close>: the duplicate count the dispatcher reads, and, to
  tell reservations apart, which call filled the slot and for which partition.
\<close>

record as_partition_reservation =
  r_mode :: rsv_mode
  r_pid :: as_partition_id
  n_dupl :: "32 word"

text \<open>
  The transaction. \<open>proto_type\<close> and \<open>msg\<close> are what \<open>tr->msgp\<close> points at;
  \<open>from_handle\<close> is the caller handle \<open>tr->from\<close>, opaque to the dispatcher. The
  predicates \<open>as_transaction_is_...\<close> and \<open>as_transaction_has_...\<close> are inline
  functions of the transaction header, which is not among the sources: their values for
  this transaction are fields of the record.
\<close>

record as_transaction =
  proto_type :: proto_type
  msg :: as_msg
  origin :: transaction_origin
  from_flags :: "8 word"
  from_handle :: "nat option"
  start_time :: "64 word"
  end_time :: "64 word"
  benchmark_time :: "64 word"
  keyd :: cf_digest
  tr_rsv :: as_partition_reservation
  result_code :: proto_result
  as_transaction_is_nsup_delete :: bool
  as_transaction_is_multi_record :: bool
  as_transaction_is_batch_direct :: bool
  as_transaction_is_query :: bool
  as_transaction_is_udf :: bool
  as_transaction_has_digest :: bool
  as_transaction_is_batch_sub :: bool
  as_transaction_has_set :: bool
  as_transaction_is_restart :: bool
  as_transaction_is_delete :: bool

text \<open>What a reserve call answers: its return value, and what it writes.\<close>

record reserve_result =
  res_rv :: int
  res_n_dupl :: "32 word"
  res_dest :: cf_node
  res_cluster_key :: "64 word"

text \<open>
  The collaborators of the dispatcher, as the answers they give to this transaction.
  Each is called at most once on any path, so one answer each is all a run can see.
  \<open>as_security_check_data_op\<close> answers the result code it leaves in the transaction,
  \<open>AS_PROTO_RESULT_OK\<close> when it permits; \<open>as_query\<close> its return value and the result
  code it leaves.
\<close>

record tsvc_env = partition_layer +
  as_security_check :: proto_result
  as_namespace_get_bymsgfield :: "8 word list \<Rightarrow> nat option"
  as_partition_balance_is_init_resolved :: bool
  as_security_check_data_op :: "perm \<Rightarrow> proto_result"
  as_batch_direct_queue_task :: int
  as_query :: "int \<times> proto_result"
  as_scan :: int
  transaction_max_ns :: "64 word"
  cf_getns :: "64 word"
  cf_digest_compute2 :: "8 word list \<Rightarrow> 8 word list \<Rightarrow> cf_digest"
  as_partition_reserve_migrate :: "as_partition_id \<Rightarrow> reserve_result"
  as_partition_reserve_write :: "as_partition_id \<Rightarrow> reserve_result"
  as_partition_reserve_read :: "as_partition_id \<Rightarrow> reserve_result"
  as_delete_start :: transaction_status
  as_udf_start :: transaction_status
  as_write_start :: transaction_status
  as_read_start :: transaction_status
  as_proxy_divert :: bool

text \<open>
  The calls that act on the outside world, in order. A reserve call is recorded with
  its return value, a release with the slot it releases, an executor with the status it
  returned, the handlers of multi-record requests with their return values.
\<close>

datatype multi_rec_code = RESULT_CODE proto_result | RETURN_VALUE int

datatype tsvc_event =
    AS_XDR_HANDLE_TXN
  | AS_SECURITY_LOG proto_result
  | AS_TRANSACTION_ERROR "nat option" proto_result
  | AS_MULTI_REC_TRANSACTION_ERROR multi_rec_code
  | AS_BATCH_DIRECT_QUEUE_TASK int
  | AS_QUERY int
  | AS_SCAN int
  | AS_PARTITION_RESERVE rsv_mode as_partition_id int
  | AS_PARTITION_RELEASE as_partition_reservation
  | STARTED executor transaction_status
  | AS_PROXY_DIVERT cf_node "64 word" bool
  | AS_PROXY_RETURN_TO_SENDER
  | IUDF_ORIG_CB proto_result
  | CF_FREE_MSGP

text \<open>
  How a run can stop without returning: \<open>cf_crash\<close> aborts the process; reading
  the size of a field through a pointer that is null is undefined in C, and the model
  stops there.
\<close>

datatype tsvc_fault = CF_CRASH | NULL_FIELD_POINTER as_msg_field_type

text \<open>The local state of \<open>process_transaction\<close>.\<close>

record tsvc_state =
  tr :: as_transaction
  free_msgp :: bool
  events :: "tsvc_event list"

text \<open>
  Where control goes after a block of the function: on to the next block with a value,
  to the label \<open>Cleanup\<close>, or nowhere.
\<close>

datatype 'a flow =
    NEXT 'a tsvc_state
  | GOTO_CLEANUP tsvc_state
  | FAULT tsvc_fault tsvc_state

definition and_then :: "'a flow \<Rightarrow> ('a \<Rightarrow> tsvc_state \<Rightarrow> 'b flow) \<Rightarrow> 'b flow" where
  "and_then f g =
     (case f of
        NEXT x s \<Rightarrow> g x s
      | GOTO_CLEANUP s \<Rightarrow> GOTO_CLEANUP s
      | FAULT e s \<Rightarrow> FAULT e s)"

definition emit :: "tsvc_event \<Rightarrow> tsvc_state \<Rightarrow> tsvc_state" where
  "emit e s = s\<lparr>events := events s @ [e]\<rparr>"

subsection \<open>Helpers of the headers\<close>

text \<open>
  Modelled from the spec: \<open>as_msg_field_get\<close> and \<open>as_msg_field_get_value_sz\<close>
  (base/proto.h) are not among the sources. The message is "a keyed field table": the
  lookup gives the first field of the type, or the null pointer; the size is the number
  of value bytes, as a \<open>uint32_t\<close>.
\<close>

definition as_msg_field_get :: "as_msg \<Rightarrow> as_msg_field_type \<Rightarrow> 8 word list option" where
  "as_msg_field_get m t = map_of (msg_fields m) t"

definition as_msg_field_get_value_sz :: "8 word list \<Rightarrow> 32 word" where
  "as_msg_field_get_value_sz f = of_nat (length f)"

text \<open>
  Modelled from the spec: \<open>as_transaction_init_body\<close> (base/transaction.c) is not
  among the sources. It "materialises the parsed view of the message", that is, it
  resets fields of the body; the dispatcher writes each of them before it reads it,
  and the head (origin, flags, start time, message) is left as it is.
\<close>

definition as_transaction_init_body :: "as_transaction \<Rightarrow> as_transaction" where
  "as_transaction_init_body t = t"

text \<open>
  \<open>as_transaction_error\<close> sends the reply that fits the origin; the dispatcher does not
  look at the transaction's result code afterwards.
\<close>

definition as_transaction_error ::
  "nat option \<Rightarrow> proto_result \<Rightarrow> tsvc_state \<Rightarrow> tsvc_state" where
  "as_transaction_error ns code s = emit (AS_TRANSACTION_ERROR ns code) s"

definition as_multi_rec_transaction_error :: "multi_rec_code \<Rightarrow> tsvc_state \<Rightarrow> tsvc_state" where
  "as_multi_rec_transaction_error code s = emit (AS_MULTI_REC_TRANSACTION_ERROR code) s"

definition security_check_data_op :: "tsvc_env \<Rightarrow> perm \<Rightarrow> tsvc_state \<Rightarrow> bool \<times> tsvc_state" where
  "security_check_data_op env p s =
     (as_security_check_data_op env p = AS_PROTO_RESULT_OK,
      s\<lparr>tr := (tr s)\<lparr>result_code :=
             (if as_security_check_data_op env p = AS_PROTO_RESULT_OK
              then result_code (tr s)
              else as_security_check_data_op env p)\<rparr>\<rparr>)"

definition as_partition_release :: "tsvc_state \<Rightarrow> tsvc_state" where
  "as_partition_release s = emit (AS_PARTITION_RELEASE (tr_rsv (tr s))) s"

text \<open>
  A reserve call: \<open>as_partition_reserve_read\<close> and \<open>as_partition_reserve_write\<close>
  return 0 when they reserved, and then the slot holds the new reservation;
  \<open>as_partition_reserve_migrate\<close> returns nothing and always reserves. All three write
  the destination node, the first two also the cluster key.
\<close>

definition reserve_answer :: "tsvc_env \<Rightarrow> rsv_mode \<Rightarrow> as_partition_id \<Rightarrow> reserve_result" where
  "reserve_answer env mode pid =
     (case mode of
        RSV_READ \<Rightarrow> as_partition_reserve_read env pid
      | RSV_WRITE \<Rightarrow> as_partition_reserve_write env pid
      | RSV_MIGRATE \<Rightarrow> (as_partition_reserve_migrate env pid)\<lparr>res_rv := 0\<rparr>)"

definition reserve ::
  "tsvc_env \<Rightarrow> rsv_mode \<Rightarrow> as_partition_id \<Rightarrow> tsvc_state
   \<Rightarrow> (int \<times> cf_node \<times> 64 word) \<times> tsvc_state" where
  "reserve env mode pid s =
     (let r = reserve_answer env mode pid;
          s1 = emit (AS_PARTITION_RESERVE mode pid (res_rv r)) s
      in ((res_rv r, res_dest r, res_cluster_key r),
          s1\<lparr>tr := (tr s1)\<lparr>tr_rsv :=
                  (if res_rv r = 0
                   then \<lparr>r_mode = mode, r_pid = pid, n_dupl = res_n_dupl r\<rparr>
                   else tr_rsv (tr s1))\<rparr>\<rparr>))"

subsection \<open>\<open>process_transaction\<close>, block by block\<close>

text \<open>Lines 61-65.\<close>

definition should_security_check_data_op :: "as_transaction \<Rightarrow> bool" where
  "should_security_check_data_op t = (origin t = FROM_CLIENT \<or> origin t = FROM_BATCH)"

text \<open>
  The test \<open>should_security_check_data_op(tr) && ! as_security_check_data_op(...)\<close> of
  lines 279-280 and 289-290: the check is made only for the origins that need it, and
  the answer says whether the transaction may go on.
\<close>

definition data_op_permitted :: "tsvc_env \<Rightarrow> perm \<Rightarrow> tsvc_state \<Rightarrow> bool \<times> tsvc_state" where
  "data_op_permitted env p s =
     (if should_security_check_data_op (tr s)
      then security_check_data_op env p s
      else (True, s))"

text \<open>Lines 84-93: check that the socket is authenticated.\<close>

definition check_authenticated :: "tsvc_env \<Rightarrow> tsvc_state \<Rightarrow> unit flow" where
  "check_authenticated env s =
     (if origin (tr s) = FROM_CLIENT
      then (let result = as_security_check env
            in if result \<noteq> AS_PROTO_RESULT_OK
               then GOTO_CLEANUP
                      (as_transaction_error None result (emit (AS_SECURITY_LOG result) s))
               else NEXT () s)
      else NEXT () s)"

text \<open>Lines 95-119: all transactions must have a namespace.\<close>

definition get_namespace :: "tsvc_env \<Rightarrow> tsvc_state \<Rightarrow> nat flow" where
  "get_namespace env s =
     (case as_msg_field_get (msg (tr s)) AS_MSG_FIELD_TYPE_NAMESPACE of
        None \<Rightarrow> GOTO_CLEANUP (as_transaction_error None AS_PROTO_RESULT_FAIL_NAMESPACE s)
      | Some nf \<Rightarrow>
          (case as_namespace_get_bymsgfield env nf of
             None \<Rightarrow> GOTO_CLEANUP (as_transaction_error None AS_PROTO_RESULT_FAIL_NAMESPACE s)
           | Some ns \<Rightarrow> NEXT ns s))"

text \<open>Lines 121-129: has the very first partition balance finished?\<close>

definition check_balance_resolved :: "tsvc_env \<Rightarrow> nat \<Rightarrow> tsvc_state \<Rightarrow> nat flow" where
  "check_balance_resolved env ns s =
     (if \<not> as_partition_balance_is_init_resolved env \<and> \<not> as_transaction_is_nsup_delete (tr s)
      then GOTO_CLEANUP (as_transaction_error None AS_PROTO_RESULT_FAIL_UNAVAILABLE s)
      else NEXT ns s)"

text \<open>
  Lines 135-191: the multi-record transaction. Every path of it ends at \<open>Cleanup\<close>, so
  the block returns the state there.
\<close>

definition multi_record_transaction :: "tsvc_env \<Rightarrow> nat \<Rightarrow> tsvc_state \<Rightarrow> tsvc_state" where
  "multi_record_transaction env ns s0 =
     (let m = msg (tr s0);
          s = s0\<lparr>tr := (tr s0)\<lparr>end_time :=
                 (if transaction_ttl m \<noteq> 0
                  then start_time (tr s0) + ucast (transaction_ttl m) * 1000000
                  else end_time (tr s0))\<rparr>\<rparr>
      in if as_transaction_is_batch_direct (tr s)
         then (let (ok, s1) = security_check_data_op env PERM_READ s
               in if \<not> ok
                  then as_multi_rec_transaction_error (RESULT_CODE (result_code (tr s1))) s1
                  else (let rv = as_batch_direct_queue_task env;
                            s2 = emit (AS_BATCH_DIRECT_QUEUE_TASK rv) s1
                        in if rv \<noteq> 0
                           then as_multi_rec_transaction_error (RETURN_VALUE rv) s2
                           else s2))
         else if as_transaction_is_query (tr s)
         then (let (ok, s1) = security_check_data_op env
                                (if as_transaction_is_udf (tr s) then PERM_UDF_QUERY
                                 else PERM_QUERY) s
               in if \<not> ok
                  then as_multi_rec_transaction_error (RESULT_CODE (result_code (tr s1))) s1
                  else (let (rv, code) = as_query env;
                            s2 = emit (AS_QUERY rv) (s1\<lparr>tr := (tr s1)\<lparr>result_code := code\<rparr>\<rparr>)
                        in if rv = 0
                           then s2\<lparr>free_msgp := False\<rparr>
                           else as_multi_rec_transaction_error
                                  (RESULT_CODE (result_code (tr s2))) s2))
         else (let (ok, s1) = security_check_data_op env
                                (if as_transaction_is_udf (tr s) then PERM_UDF_SCAN
                                 else PERM_SCAN) s
               in if \<not> ok
                  then as_multi_rec_transaction_error (RESULT_CODE (result_code (tr s1))) s1
                  else (let rv = as_scan env;
                            s2 = emit (AS_SCAN rv) s1
                        in if rv = 0
                           then s2\<lparr>free_msgp := False\<rparr>
                           else as_multi_rec_transaction_error (RETURN_VALUE rv) s2)))"

text \<open>
  Lines 197-214: the deadline of a single-record transaction, and the check that it has
  not passed on the queue. Times are \<open>uint64_t\<close>; the time-to-live is widened to 64
  bits before it is multiplied.
\<close>

definition single_record_deadline :: "tsvc_env \<Rightarrow> nat \<Rightarrow> tsvc_state \<Rightarrow> nat flow" where
  "single_record_deadline env ns s =
     (let m = msg (tr s);
          s1 = s\<lparr>tr := (tr s)\<lparr>end_time :=
                 (if transaction_ttl m \<noteq> 0
                  then start_time (tr s) + ucast (transaction_ttl m) * 1000000
                  else start_time (tr s) + transaction_max_ns env)\<rparr>\<rparr>
      in if end_time (tr s1) < cf_getns env
         then GOTO_CLEANUP (as_transaction_error (Some ns) AS_PROTO_RESULT_FAIL_TIMEOUT s1)
         else NEXT ns s1)"

text \<open>
  Lines 216-244: the digest, copied from the message or computed from key and set.
  \<open>sizeof(cf_digest)\<close> is 20. The source passes \<open>df\<close> and \<open>kf\<close> unchecked to
  \<open>as_msg_field_get_value_sz\<close>, which reads the field's size; where that pointer is null
  the model stops with \<open>NULL_FIELD_POINTER\<close>. The set pointer \<open>sf\<close> is null when the
  message has no set: then \<open>set_sz\<close> is 0 (line 240), \<open>sf->data\<close> is passed as an
  address of which \<open>cf_digest_compute2\<close> reads \<open>set_sz\<close> bytes, that is none, and the
  digest is computed from the key alone.
\<close>

definition single_record_digest :: "tsvc_env \<Rightarrow> nat \<Rightarrow> tsvc_state \<Rightarrow> nat flow" where
  "single_record_digest env ns s =
     (let m = msg (tr s)
      in if as_transaction_has_digest (tr s)
         then (case as_msg_field_get m AS_MSG_FIELD_TYPE_DIGEST_RIPE of
                 None \<Rightarrow> FAULT (NULL_FIELD_POINTER AS_MSG_FIELD_TYPE_DIGEST_RIPE) s
               | Some df \<Rightarrow>
                   if as_msg_field_get_value_sz df \<noteq> 20
                   then GOTO_CLEANUP
                          (as_transaction_error (Some ns) AS_PROTO_RESULT_FAIL_PARAMETER s)
                   else NEXT ns (s\<lparr>tr := (tr s)\<lparr>keyd := take 20 df\<rparr>\<rparr>))
         else if \<not> as_transaction_is_batch_sub (tr s)
         then (case as_msg_field_get m AS_MSG_FIELD_TYPE_KEY of
                 None \<Rightarrow> FAULT (NULL_FIELD_POINTER AS_MSG_FIELD_TYPE_KEY) s
               | Some kf \<Rightarrow>
                   (let key_sz = as_msg_field_get_value_sz kf;
                        sf = (if as_transaction_has_set (tr s)
                              then as_msg_field_get m AS_MSG_FIELD_TYPE_SET
                              else None);
                        set_sz = (case sf of
                                    Some f \<Rightarrow> as_msg_field_get_value_sz f
                                  | None \<Rightarrow> 0);
                        set_bytes = (case sf of
                                       Some sd \<Rightarrow> take (unat set_sz) sd
                                     | None \<Rightarrow> [])
                    in NEXT ns (s\<lparr>tr := (tr s)\<lparr>keyd :=
                                  cf_digest_compute2 env set_bytes
                                    (take (unat key_sz) kf)\<rparr>\<rparr>)))
         else NEXT ns s)"

text \<open>
  Lines 248-311: the kind of reservation, and the reservation. The block hands on the
  return value \<open>rv\<close>, the destination node and the cluster key.
\<close>

definition reserve_partition ::
  "tsvc_env \<Rightarrow> nat \<Rightarrow> tsvc_state \<Rightarrow> (int \<times> cf_node \<times> 64 word) flow" where
  "reserve_partition env ns s =
     (let m = msg (tr s);
          is_write = (info2 m AND AS_MSG_INFO2_WRITE \<noteq> 0);
          is_read = (info1 m AND AS_MSG_INFO1_READ \<noteq> 0);
          pid = as_partition_getid env (keyd (tr s))
      in if from_flags (tr s) AND FROM_FLAG_SHIPPED_OP \<noteq> 0
         then (if \<not> is_write
               then GOTO_CLEANUP
                      (as_transaction_error (Some ns) AS_PROTO_RESULT_FAIL_UNKNOWN s)
               else (case reserve env RSV_MIGRATE pid s of
                       ((rv, dest, ck), s1) \<Rightarrow>
                         if n_dupl (tr_rsv (tr s1)) \<noteq> 0
                         then GOTO_CLEANUP
                                (as_transaction_error (Some ns) AS_PROTO_RESULT_FAIL_UNKNOWN
                                   (as_partition_release s1))
                         else NEXT (0, dest, 0) s1))
         else if is_write
         then (let (ok, s1) = data_op_permitted env PERM_WRITE s
               in if \<not> ok
                  then GOTO_CLEANUP (as_transaction_error (Some ns) (result_code (tr s1)) s1)
                  else (case reserve env RSV_WRITE pid s1 of (r, s2) \<Rightarrow> NEXT r s2))
         else if is_read
         then (let (ok, s1) = data_op_permitted env PERM_READ s
               in if \<not> ok
                  then GOTO_CLEANUP (as_transaction_error (Some ns) (result_code (tr s1)) s1)
                  else (case reserve env RSV_READ pid s1 of
                          ((rv, dest, ck), s2) \<Rightarrow>
                            if rv = 0 \<and> 0 < n_dupl (tr_rsv (tr s2))
                            then (case reserve env RSV_WRITE pid (as_partition_release s2) of
                                    (r, s3) \<Rightarrow> NEXT r s3)
                            else NEXT (rv, dest, ck) s2))
         else GOTO_CLEANUP (as_transaction_error (Some ns) AS_PROTO_RESULT_FAIL_PARAMETER s))"

text \<open>
  Lines 317-360: the reservation succeeded. The executor is started and its status
  decides who owns the message and the reservation from here on.
\<close>

definition start_executor :: "tsvc_env \<Rightarrow> as_transaction \<Rightarrow> executor \<times> transaction_status" where
  "start_executor env t =
     (if info2 (msg t) AND AS_MSG_INFO2_WRITE \<noteq> 0
      then (if as_transaction_is_delete t
            then (AS_DELETE_START, as_delete_start env)
            else if origin t = FROM_IUDF \<or> as_transaction_is_udf t
            then (AS_UDF_START, as_udf_start env)
            else (AS_WRITE_START, as_write_start env))
      else (AS_READ_START, as_read_start env))"

definition reservation_succeeded :: "tsvc_env \<Rightarrow> tsvc_state \<Rightarrow> unit flow" where
  "reservation_succeeded env s0 =
     (let s = s0\<lparr>tr := (tr s0)\<lparr>benchmark_time :=
                 (if \<not> as_transaction_is_restart (tr s0) then 0
                  else benchmark_time (tr s0))\<rparr>\<rparr>;
          (ex, status) = start_executor env (tr s);
          s1 = emit (STARTED ex status) s
      in case status of
           TRANS_DONE_ERROR \<Rightarrow> NEXT () (as_partition_release s1)
         | TRANS_DONE_SUCCESS \<Rightarrow> NEXT () (as_partition_release s1)
         | TRANS_IN_PROGRESS \<Rightarrow> NEXT () (s1\<lparr>free_msgp := False\<rparr>)
         | TRANS_WAITING \<Rightarrow> NEXT () (as_partition_release (s1\<lparr>free_msgp := False\<rparr>))
         | TRANS_INVALID v \<Rightarrow> FAULT CF_CRASH s1)"

text \<open>Lines 361-390: the reservation failed; what happens depends on the origin.\<close>

definition proxy_divert ::
  "tsvc_env \<Rightarrow> nat \<Rightarrow> cf_node \<Rightarrow> 64 word \<Rightarrow> tsvc_state \<Rightarrow> unit flow" where
  "proxy_divert env ns dest ck s =
     (let ok = as_proxy_divert env;
          s1 = emit (AS_PROXY_DIVERT dest ck ok) s
      in if \<not> ok
         then NEXT () (as_transaction_error (Some ns) AS_PROTO_RESULT_FAIL_UNKNOWN s1)
         else NEXT () (s1\<lparr>free_msgp := False\<rparr>))"

definition reservation_failed ::
  "tsvc_env \<Rightarrow> nat \<Rightarrow> cf_node \<Rightarrow> 64 word \<Rightarrow> tsvc_state \<Rightarrow> unit flow" where
  "reservation_failed env ns dest ck s =
     (case origin (tr s) of
        FROM_CLIENT \<Rightarrow> proxy_divert env ns dest ck s
      | FROM_BATCH \<Rightarrow> proxy_divert env ns dest ck s
      | FROM_PROXY \<Rightarrow>
          NEXT () ((emit AS_PROXY_RETURN_TO_SENDER s)\<lparr>tr := (tr s)\<lparr>from_handle := Some 0\<rparr>\<rparr>)
      | FROM_IUDF \<Rightarrow>
          NEXT () ((emit (IUDF_ORIG_CB AS_PROTO_RESULT_FAIL_UNKNOWN) s)
                     \<lparr>tr := (tr s)\<lparr>from_handle := None\<rparr>\<rparr>)
      | FROM_NSUP \<Rightarrow> NEXT () s
      | FROM_UNDEF \<Rightarrow> FAULT CF_CRASH s)"

text \<open>
  Lines 313-390: the destination that the reserve call wrote must not be 0; then the
  return value \<open>rv\<close> chooses between the two branches.
\<close>

definition after_reservation ::
  "tsvc_env \<Rightarrow> nat \<Rightarrow> int \<times> cf_node \<times> 64 word \<Rightarrow> tsvc_state \<Rightarrow> unit flow" where
  "after_reservation env ns r s =
     (case r of
        (rv, dest, ck) \<Rightarrow>
          if dest = 0 then FAULT CF_CRASH s
          else if rv = 0 then reservation_succeeded env s
          else reservation_failed env ns dest ck s)"

text \<open>Lines 197-390 in order: the single-record transaction from each block on.\<close>

definition from_reservation :: "tsvc_env \<Rightarrow> nat \<Rightarrow> tsvc_state \<Rightarrow> unit flow" where
  "from_reservation env ns s =
     and_then (reserve_partition env ns s) (after_reservation env ns)"

definition from_digest :: "tsvc_env \<Rightarrow> nat \<Rightarrow> tsvc_state \<Rightarrow> unit flow" where
  "from_digest env ns s =
     and_then (single_record_digest env ns s) (from_reservation env)"

definition single_record_transaction :: "tsvc_env \<Rightarrow> nat \<Rightarrow> tsvc_state \<Rightarrow> unit flow" where
  "single_record_transaction env ns s =
     and_then (single_record_deadline env ns s) (from_digest env)"

text \<open>Lines 392-397: the label \<open>Cleanup\<close>.\<close>

definition cleanup :: "tsvc_state \<Rightarrow> tsvc_state" where
  "cleanup s =
     (if free_msgp s \<and> origin (tr s) \<noteq> FROM_BATCH then emit CF_FREE_MSGP s else s)"

definition to_cleanup :: "unit flow \<Rightarrow> tsvc_fault option \<times> tsvc_state" where
  "to_cleanup f =
     (case f of
        NEXT u s \<Rightarrow> (None, cleanup s)
      | GOTO_CLEANUP s \<Rightarrow> (None, cleanup s)
      | FAULT e s \<Rightarrow> (Some e, s))"

text \<open>
  The whole function: lines 84-191 lead to the choice between the multi-record and the
  single-record transaction (line 135). The result is the fault that stopped the run,
  if any, the transaction as the run left it, and the calls it made.
\<close>

definition classify :: "tsvc_env \<Rightarrow> nat \<Rightarrow> tsvc_state \<Rightarrow> unit flow" where
  "classify env ns s =
     (if as_transaction_is_multi_record (tr s)
      then GOTO_CLEANUP (multi_record_transaction env ns s)
      else single_record_transaction env ns s)"

definition from_balance :: "tsvc_env \<Rightarrow> nat \<Rightarrow> tsvc_state \<Rightarrow> unit flow" where
  "from_balance env ns s =
     and_then (check_balance_resolved env ns s) (classify env)"

definition from_namespace :: "tsvc_env \<Rightarrow> unit \<Rightarrow> tsvc_state \<Rightarrow> unit flow" where
  "from_namespace env u s =
     and_then (get_namespace env s) (from_balance env)"

definition process_transaction_body :: "tsvc_env \<Rightarrow> tsvc_state \<Rightarrow> unit flow" where
  "process_transaction_body env s0 =
     and_then (check_authenticated env s0) (from_namespace env)"

definition process_transaction ::
  "tsvc_env \<Rightarrow> as_transaction \<Rightarrow> tsvc_fault option \<times> as_transaction \<times> tsvc_event list" where
  "process_transaction env t =
     (if proto_type t = PROTO_TYPE_INTERNAL_XDR
      then (None, t, [AS_XDR_HANDLE_TXN])
      else (case to_cleanup
                   (process_transaction_body env
                      \<lparr>tr = as_transaction_init_body t, free_msgp = True, events = []\<rparr>) of
              (f, s) \<Rightarrow> (f, tr s, events s)))"

subsection \<open>The queues: \<open>thr_tsvc_enqueue\<close>\<close>

text \<open>
  \<open>proto_peek\<close> is what \<open>as_msg_peek\<close> reads off the message: the first info byte,
  the digest, and the number of devices and the first queue of the namespace (C
  \<open>int\<close>s, small by configuration). The queue plane is the part of the configuration
  the router reads, the round-robin counter, and the array of queues, a null pointer
  being \<open>None\<close>.
\<close>

record proto_peek =
  pk_info1 :: "8 word"
  pk_keyd :: cf_digest
  ns_n_devices :: int
  ns_queue_offset :: int

record queue_plane =
  use_queue_per_device :: bool
  n_transaction_queues :: int
  g_current_q :: "32 word"
  g_transaction_queues :: "as_transaction list option list"

datatype enqueue_fault =
  ENQUEUE_CF_CRASH | DIVIDE_BY_ZERO | QUEUE_INDEX_PAST_ARRAY "32 word"

text \<open>
  Lines 528-561: the choice of the queue, \<open>n_q\<close>. The digest byte is promoted to
  \<open>int\<close> and \<open>%\<close> truncates (\<open>smod\<close>); the sum is converted to \<open>uint32_t\<close>. In the
  default mode the counter is divided as an unsigned number.
\<close>

definition thr_tsvc_enqueue_n_q ::
  "queue_plane \<Rightarrow> proto_peek \<Rightarrow> enqueue_fault + 32 word \<times> queue_plane" where
  "thr_tsvc_enqueue_n_q plane ppeek =
     (if use_queue_per_device plane
      then (if ns_n_devices ppeek \<noteq> 0
            then (if pk_info1 ppeek AND AS_MSG_INFO1_READ \<noteq> 0
                  then Inr (word_of_int
                              (uint (pk_keyd ppeek ! 8) smod ns_n_devices ppeek
                               + ns_queue_offset ppeek), plane)
                  else Inr (word_of_int
                              (uint (pk_keyd ppeek ! 8) smod ns_n_devices ppeek
                               + ns_queue_offset ppeek + ns_n_devices ppeek), plane))
            else (if pk_info1 ppeek AND AS_MSG_INFO1_READ \<noteq> 0
                  then Inr (word_of_int (ns_queue_offset ppeek), plane)
                  else Inr (word_of_int (ns_queue_offset ppeek + 1), plane)))
      else (if (word_of_int (n_transaction_queues plane) :: 32 word) = 0
            then Inl DIVIDE_BY_ZERO
            else Inr (g_current_q plane mod word_of_int (n_transaction_queues plane),
                      plane\<lparr>g_current_q := g_current_q plane + 1\<rparr>)))"

text \<open>
  Lines 519-574. \<open>ppeek\<close> is the answer of \<open>as_msg_peek\<close> for the transaction and
  \<open>push_ok\<close> says whether \<open>cf_queue_push\<close> succeeds. A queue is the list of the
  transactions on it, oldest first.
\<close>

definition thr_tsvc_enqueue ::
  "queue_plane \<Rightarrow> proto_peek \<Rightarrow> bool \<Rightarrow> as_transaction \<Rightarrow> enqueue_fault + int \<times> queue_plane" where
  "thr_tsvc_enqueue plane ppeek push_ok t =
     (case thr_tsvc_enqueue_n_q plane ppeek of
        Inl e \<Rightarrow> Inl e
      | Inr (n_q, p1) \<Rightarrow>
          if unat n_q < length (g_transaction_queues p1)
          then (case g_transaction_queues p1 ! unat n_q of
                  None \<Rightarrow> Inl ENQUEUE_CF_CRASH
                | Some q \<Rightarrow>
                    if push_ok
                    then Inr (0, p1\<lparr>g_transaction_queues :=
                                     (g_transaction_queues p1)[unat n_q := Some (q @ [t])]\<rparr>)
                    else Inl ENQUEUE_CF_CRASH)
          else Inl (QUEUE_INDEX_PAST_ARRAY n_q))"

section \<open>Terms of the statements\<close>

subsection \<open>Runs of the dispatcher\<close>

text \<open>The state a block leaves, wherever control goes next.\<close>

fun flow_state :: "'a flow \<Rightarrow> tsvc_state" where
  "flow_state (NEXT x s) = s"
| "flow_state (GOTO_CLEANUP s) = s"
| "flow_state (FAULT e s) = s"

text \<open>
  A property of the state in which a block hands control on; a block that stops the
  run hands nothing on.
\<close>

fun flow_ok :: "(tsvc_state \<Rightarrow> bool) \<Rightarrow> 'a flow \<Rightarrow> bool" where
  "flow_ok Q (NEXT x s) = Q s"
| "flow_ok Q (GOTO_CLEANUP s) = Q s"
| "flow_ok Q (FAULT e s) = True"

text \<open>
  The calls after which the message buffer belongs to someone else: the XDR handler,
  a query or scan that took the transaction over (returned 0), an executor that
  returned in-progress or waiting, and a proxy divert that succeeded.
\<close>

fun transfers_msgp :: "tsvc_event \<Rightarrow> bool" where
  "transfers_msgp AS_XDR_HANDLE_TXN = True"
| "transfers_msgp (AS_QUERY rv) = (rv = 0)"
| "transfers_msgp (AS_SCAN rv) = (rv = 0)"
| "transfers_msgp (STARTED ex st) = (st = TRANS_IN_PROGRESS \<or> st = TRANS_WAITING)"
| "transfers_msgp (AS_PROXY_DIVERT dest ck ok) = ok"
| "transfers_msgp e = False"

text \<open>
  Before \<open>Cleanup\<close>: nothing has been freed, and the flag \<open>free_msgp\<close> is up exactly
  when no call so far took the buffer over.
\<close>

definition msg_inv :: "tsvc_state \<Rightarrow> bool" where
  "msg_inv s =
     (CF_FREE_MSGP \<notin> set (events s)
      \<and> free_msgp s = (\<not> list_ex transfers_msgp (events s)))"

text \<open>
  The call after which the reservation belongs to someone else: an executor that
  returned in-progress.
\<close>

fun hands_over_rsv :: "tsvc_event \<Rightarrow> bool" where
  "hands_over_rsv (STARTED ex st) = (st = TRANS_IN_PROGRESS)"
| "hands_over_rsv e = False"

text \<open>
  Following the reservation through a run. \<open>held\<close> is the reservation the dispatcher
  holds, by mode and partition, or nothing. A reserve call that returns 0 acquires; it
  is an error (\<open>None\<close>) to acquire while holding. A release must be of the reservation
  held, and leaves nothing held; any other release is an error.
\<close>

fun rsv_step ::
  "(rsv_mode \<times> as_partition_id) option \<Rightarrow> tsvc_event
   \<Rightarrow> (rsv_mode \<times> as_partition_id) option option" where
  "rsv_step held (AS_PARTITION_RESERVE m p rv) =
     (if rv = 0 then (if held = None then Some (Some (m, p)) else None) else Some held)"
| "rsv_step held (AS_PARTITION_RELEASE r) =
     (if held = Some (r_mode r, r_pid r) then Some None else None)"
| "rsv_step held e = Some held"

fun rsv_track ::
  "(rsv_mode \<times> as_partition_id) option \<Rightarrow> tsvc_event list
   \<Rightarrow> (rsv_mode \<times> as_partition_id) option option" where
  "rsv_track held [] = Some held"
| "rsv_track held (e # es) =
     (case rsv_step held e of None \<Rightarrow> None | Some h \<Rightarrow> rsv_track h es)"

definition slot_of :: "tsvc_state \<Rightarrow> rsv_mode \<times> as_partition_id" where
  "slot_of s = (r_mode (tr_rsv (tr s)), r_pid (tr_rsv (tr s)))"

text \<open>The three situations of a run with respect to the reservation.\<close>

definition rsv_none :: "tsvc_state \<Rightarrow> bool" where
  "rsv_none s =
     (rsv_track None (events s) = Some None \<and> \<not> list_ex hands_over_rsv (events s))"

definition rsv_held :: "tsvc_state \<Rightarrow> bool" where
  "rsv_held s =
     (rsv_track None (events s) = Some (Some (slot_of s))
      \<and> \<not> list_ex hands_over_rsv (events s))"

definition rsv_settled :: "tsvc_state \<Rightarrow> bool" where
  "rsv_settled s =
     (rsv_track None (events s) =
        Some (if list_ex hands_over_rsv (events s) then Some (slot_of s) else None))"

fun is_reserve :: "tsvc_event \<Rightarrow> bool" where
  "is_reserve (AS_PARTITION_RESERVE m p rv) = True"
| "is_reserve e = False"

subsection \<open>Transactions that reach a given block\<close>

text \<open>The namespace the message names, if it names one that exists.\<close>

definition the_namespace :: "tsvc_env \<Rightarrow> as_transaction \<Rightarrow> nat option" where
  "the_namespace env t =
     (case as_msg_field_get (msg t) AS_MSG_FIELD_TYPE_NAMESPACE of
        None \<Rightarrow> None
      | Some nf \<Rightarrow> as_namespace_get_bymsgfield env nf)"

text \<open>
  The transaction is no XDR message and passes the checks of lines 84-129: a client's
  socket is authenticated, the namespace exists, and the first partition balance is
  done or the transaction is a delete of the expiration thread.
\<close>

definition passes_gates :: "tsvc_env \<Rightarrow> as_transaction \<Rightarrow> bool" where
  "passes_gates env t =
     (proto_type t \<noteq> PROTO_TYPE_INTERNAL_XDR
      \<and> (origin t = FROM_CLIENT \<and> as_security_check env = AS_PROTO_RESULT_OK
         \<or> origin t \<noteq> FROM_CLIENT)
      \<and> the_namespace env t \<noteq> None
      \<and> (as_partition_balance_is_init_resolved env \<or> as_transaction_is_nsup_delete t))"

text \<open>The deadline a single-record transaction gets (lines 199-207).\<close>

definition deadline_of :: "tsvc_env \<Rightarrow> as_transaction \<Rightarrow> 64 word" where
  "deadline_of env t =
     (if transaction_ttl (msg t) \<noteq> 0
      then start_time t + ucast (transaction_ttl (msg t)) * 1000000
      else start_time t + transaction_max_ns env)"

text \<open>
  The message has what lines 218-243 read: a digest field of 20 bytes, or, for a
  transaction that is no batch sub-transaction, a key field (with or without a set).
\<close>

definition digest_ready :: "as_transaction \<Rightarrow> bool" where
  "digest_ready t =
     (if as_transaction_has_digest t
      then (case as_msg_field_get (msg t) AS_MSG_FIELD_TYPE_DIGEST_RIPE of
              None \<Rightarrow> False
            | Some df \<Rightarrow> as_msg_field_get_value_sz df = 20)
      else if as_transaction_is_batch_sub t then True
      else as_msg_field_get (msg t) AS_MSG_FIELD_TYPE_KEY \<noteq> None)"

text \<open>
  The bytes of the set that line 242 hands to the digest: those of the set field, none
  where the message has no set.
\<close>

definition set_bytes_read :: "as_transaction \<Rightarrow> 8 word list" where
  "set_bytes_read t =
     (if as_transaction_has_set t
      then (case as_msg_field_get (msg t) AS_MSG_FIELD_TYPE_SET of
              None \<Rightarrow> []
            | Some sd \<Rightarrow> take (unat (as_msg_field_get_value_sz sd)) sd)
      else [])"

text \<open>The digest such a transaction has after lines 218-243.\<close>

definition single_record_keyd :: "tsvc_env \<Rightarrow> as_transaction \<Rightarrow> cf_digest" where
  "single_record_keyd env t =
     (if as_transaction_has_digest t
      then (case as_msg_field_get (msg t) AS_MSG_FIELD_TYPE_DIGEST_RIPE of
              None \<Rightarrow> keyd t
            | Some df \<Rightarrow> take 20 df)
      else if as_transaction_is_batch_sub t then keyd t
      else (case as_msg_field_get (msg t) AS_MSG_FIELD_TYPE_KEY of
              None \<Rightarrow> keyd t
            | Some kf \<Rightarrow>
                cf_digest_compute2 env (set_bytes_read t)
                  (take (unat (as_msg_field_get_value_sz kf)) kf)))"

text \<open>
  A single-record transaction that gets as far as choosing its reservation (line 246):
  it passes the checks, is not multi-record, has not timed out on the queue, and its
  digest can be had.
\<close>

definition reaches_reservation :: "tsvc_env \<Rightarrow> as_transaction \<Rightarrow> bool" where
  "reaches_reservation env t =
     (passes_gates env t
      \<and> \<not> as_transaction_is_multi_record t
      \<and> \<not> deadline_of env t < cf_getns env
      \<and> digest_ready t)"


section \<open>Concrete inputs\<close>

subsection \<open>For the aggregation stream\<close>

text \<open>
  A call with all hooks set: every partition can be reserved and every record passes
  the pre-check. Every record opens.
\<close>

definition example_hooks :: as_aggr_hooks where
  "example_hooks =
     \<lparr>hook_ptn_reserve = Some (\<lambda>pid. Some \<lparr>rsv_state = 1, rsv_pid = pid, rsv_p = 0,
                                             rsv_tree = 0, rsv_cluster_key = 5,
                                             rsv_sub_tree = 0\<rparr>),
      hook_ptn_release = True,
      hook_set_error = True,
      hook_pre_check = Some (\<lambda>d skey. True)\<rparr>"

definition example_aggr_env :: aggr_env where
  "example_aggr_env =
     \<lparr>as_partition_getid = (\<lambda>d. case d of [] \<Rightarrow> 0 | b # bs \<Rightarrow> unat b),
      udf_record_open = (\<lambda>d. 0),
      AS_PARTITION_RESERVATION_INIT =
        (\<lambda>r. r\<lparr>rsv_state := 0, rsv_pid := 0, rsv_p := 0, rsv_tree := 0,
                 rsv_cluster_key := 0, rsv_sub_tree := 0\<rparr>)\<rparr>"

text \<open>
  A batch with two valid entries in arrays of three (the third entry is stale), and a
  second batch with one valid entry.
\<close>

definition example_batch :: as_index_keys_arr where
  "example_batch =
     \<lparr>num = 2,
      pindex_digs = [replicate 20 1, replicate 20 2, replicate 20 255],
      sindex_keys = [10, 20, 0]\<rparr>"

definition example_batch2 :: as_index_keys_arr where
  "example_batch2 =
     \<lparr>num = 1,
      pindex_digs = [replicate 20 3, replicate 20 255, replicate 20 255],
      sindex_keys = [30, 0, 0]\<rparr>"

text \<open>The cursor as \<open>as_aggr_process\<close> sets it up, over a given list of batches.\<close>

definition example_cursor :: "as_index_keys_arr list \<Rightarrow> aggr_obj" where
  "example_cursor batches =
     \<lparr>iter = batches, keys_arr = None, keys_arr_offset = 0, rec_open = False,
      rsv = None, call = Some \<lparr>aggr_hooks = Some example_hooks\<rparr>,
      urecord_keyd = [],
      urecord_tr_rsv = \<lparr>rsv_state = 0, rsv_pid = 0, rsv_p = 0, rsv_tree = 0,
                        rsv_cluster_key = 0, rsv_sub_tree = 0\<rparr>,
      urecord_tr_keyd = [], skip_lock = False, log = []\<rparr>"

text \<open>The same cursor standing on an open record.\<close>

definition example_open_cursor :: aggr_obj where
  "example_open_cursor =
     (example_cursor [])\<lparr>keys_arr := Some example_batch, keys_arr_offset := 1,
                          rec_open := True,
                          rsv := Some \<lparr>rsv_state = 1, rsv_pid = 2, rsv_p = 0, rsv_tree = 0,
                                       rsv_cluster_key = 5, rsv_sub_tree = 0\<rparr>,
                          urecord_keyd := replicate 20 2\<rparr>"

subsection \<open>For the dispatcher\<close>

text \<open>
  A node on which everything is permitted and every reservation succeeds; a read
  reservation finds two duplicates. Reads and deletes finish at once, writes stay in
  progress.
\<close>

definition example_env :: tsvc_env where
  "example_env =
     \<lparr>as_partition_getid = (\<lambda>d. case d of [] \<Rightarrow> 0 | b # bs \<Rightarrow> unat b),
      as_security_check = AS_PROTO_RESULT_OK,
      as_namespace_get_bymsgfield = (\<lambda>name. if name = [116, 101, 115, 116] then Some 0 else None),
      as_partition_balance_is_init_resolved = True,
      as_security_check_data_op = (\<lambda>p. AS_PROTO_RESULT_OK),
      as_batch_direct_queue_task = 0,
      as_query = (0, AS_PROTO_RESULT_OK),
      as_scan = 0,
      transaction_max_ns = 2000000000,
      cf_getns = 5000,
      cf_digest_compute2 =
        (\<lambda>set_bytes key_bytes. take 20 (set_bytes @ key_bytes @ replicate 20 0)),
      as_partition_reserve_migrate =
        (\<lambda>pid. \<lparr>res_rv = 0, res_n_dupl = 0, res_dest = 1, res_cluster_key = 0\<rparr>),
      as_partition_reserve_write =
        (\<lambda>pid. \<lparr>res_rv = 0, res_n_dupl = 0, res_dest = 1, res_cluster_key = 77\<rparr>),
      as_partition_reserve_read =
        (\<lambda>pid. \<lparr>res_rv = 0, res_n_dupl = 2, res_dest = 1, res_cluster_key = 77\<rparr>),
      as_delete_start = TRANS_DONE_SUCCESS,
      as_udf_start = TRANS_WAITING,
      as_write_start = TRANS_IN_PROGRESS,
      as_read_start = TRANS_DONE_SUCCESS,
      as_proxy_divert = True\<rparr>"

text \<open>
  The same node, where a read reservation finds no duplicates; and where the write
  reservation is refused (the partition is on node 2).
\<close>

definition example_env_no_dupl :: tsvc_env where
  "example_env_no_dupl =
     example_env\<lparr>as_partition_reserve_read :=
       (\<lambda>pid. \<lparr>res_rv = 0, res_n_dupl = 0, res_dest = 1, res_cluster_key = 77\<rparr>)\<rparr>"

definition example_env_write_refused :: tsvc_env where
  "example_env_write_refused =
     example_env\<lparr>as_partition_reserve_write :=
       (\<lambda>pid. \<lparr>res_rv = - 1, res_n_dupl = 0, res_dest = 2, res_cluster_key = 78\<rparr>)\<rparr>"

text \<open>
  A client's read of one record in namespace "test", with the digest in the message
  and a time-to-live of 1000 milliseconds.
\<close>

definition example_read :: as_transaction where
  "example_read =
     \<lparr>proto_type = PROTO_TYPE_AS_MSG,
      msg = \<lparr>info1 = 1, info2 = 0, transaction_ttl = 1000,
             msg_fields = [(AS_MSG_FIELD_TYPE_NAMESPACE, [116, 101, 115, 116]),
                           (AS_MSG_FIELD_TYPE_DIGEST_RIPE, replicate 20 7)]\<rparr>,
      origin = FROM_CLIENT,
      from_flags = 0,
      from_handle = Some 3,
      start_time = 4000,
      end_time = 0,
      benchmark_time = 0,
      keyd = [],
      tr_rsv = \<lparr>r_mode = RSV_READ, r_pid = 0, n_dupl = 0\<rparr>,
      result_code = AS_PROTO_RESULT_OK,
      as_transaction_is_nsup_delete = False,
      as_transaction_is_multi_record = False,
      as_transaction_is_batch_direct = False,
      as_transaction_is_query = False,
      as_transaction_is_udf = False,
      as_transaction_has_digest = True,
      as_transaction_is_batch_sub = False,
      as_transaction_has_set = False,
      as_transaction_is_restart = False,
      as_transaction_is_delete = False\<rparr>"

text \<open>The same message as a write, and both with the shipped-op flag.\<close>

definition example_write :: as_transaction where
  "example_write = example_read\<lparr>msg := (msg example_read)\<lparr>info1 := 0, info2 := 1\<rparr>\<rparr>"

definition example_shipped_read :: as_transaction where
  "example_shipped_read = example_read\<lparr>from_flags := FROM_FLAG_SHIPPED_OP\<rparr>"

definition example_shipped_write :: as_transaction where
  "example_shipped_write = example_write\<lparr>from_flags := FROM_FLAG_SHIPPED_OP\<rparr>"

text \<open>
  An old client's read: no digest field, the key in the message, no set. The same with
  the shipped-op flag, and the same with a set.
\<close>

definition example_key_no_set :: as_transaction where
  "example_key_no_set =
     example_read\<lparr>msg := (msg example_read)\<lparr>msg_fields :=
                      [(AS_MSG_FIELD_TYPE_NAMESPACE, [116, 101, 115, 116]),
                       (AS_MSG_FIELD_TYPE_KEY, [3, 107, 49])]\<rparr>,
                  as_transaction_has_digest := False\<rparr>"

definition example_shipped_key_no_set :: as_transaction where
  "example_shipped_key_no_set = example_key_no_set\<lparr>from_flags := FROM_FLAG_SHIPPED_OP\<rparr>"

definition example_key_and_set :: as_transaction where
  "example_key_and_set =
     example_read\<lparr>msg := (msg example_read)\<lparr>msg_fields :=
                      [(AS_MSG_FIELD_TYPE_NAMESPACE, [116, 101, 115, 116]),
                       (AS_MSG_FIELD_TYPE_SET, [115, 49]),
                       (AS_MSG_FIELD_TYPE_KEY, [3, 107, 49])]\<rparr>,
                  as_transaction_has_digest := False,
                  as_transaction_has_set := True\<rparr>"

subsection \<open>For the queues\<close>

text \<open>
  Queue-per-device mode with 32 queues, all empty. The namespace of the peeked message
  has 4 devices and its queues start at 10; byte 8 of the digest is 9; the read bit is
  clear.
\<close>

definition example_plane :: queue_plane where
  "example_plane =
     \<lparr>use_queue_per_device = True, n_transaction_queues = 32, g_current_q = 0,
      g_transaction_queues = replicate 32 (Some [])\<rparr>"

definition example_peek :: proto_peek where
  "example_peek =
     \<lparr>pk_info1 = 0,
      pk_keyd = [0, 0, 0, 0, 0, 0, 0, 0, 9, 0, 0, 0, 0, 0, 0, 0, 0, 0, 0, 0],
      ns_n_devices = 4,
      ns_queue_offset = 10\<rparr>"

section \<open>Properties of the aggregation stream\<close>

lemma rec_open_ptn_release: "rec_open (ptn_release aobj) = rec_open aobj"
  by (simp add: ptn_release_def split: option.splits)

text \<open>
  C7. Closing the cursor twice is the same as closing it once: after the first close the
  record-open flag is down, so the second close leaves every field alone, the record
  handle and the reservation among them, and adds no call to the log (no record close,
  no reservation release).
\<close>

theorem aclose_idempotent:
  "aclose (aclose aobj) = aclose aobj
   \<and> rec_open (aclose aobj) = False
   \<and> log (aclose (aclose aobj)) = log (aclose aobj)"
  by (simp add: aclose_def rec_open_ptn_release)

lemmas aggr_defs =
  get_next_def cf_ll_getNext_def aclose_def ptn_release_def example_cursor_def
  example_batch_def example_batch2_def example_hooks_def example_open_cursor_def

theorem aclose_idempotent_witness:
  "rec_open example_open_cursor
   \<and> aclose (aclose example_open_cursor) = aclose example_open_cursor
   \<and> log (aclose (aclose example_open_cursor)) =
       [UDF_RECORD_CLOSE,
        PTN_RELEASE (Some \<lparr>rsv_state = 1, rsv_pid = 2, rsv_p = 0, rsv_tree = 0,
                            rsv_cluster_key = 5, rsv_sub_tree = 0\<rparr>)]"
  using aclose_idempotent [of example_open_cursor]
  by (simp add: aggr_defs)

text \<open>
  What \<open>get_next\<close> yields at the two ends of a batch: right after it has loaded the
  first batch it moves on to index 1, and from the last valid entry it moves on to
  index \<open>num\<close>.
\<close>

lemma get_next_first_batch:
  assumes "keys_arr aobj = None" and "iter aobj = b # bs" and "num b \<noteq> 0"
  shows "fst (get_next aobj) = Some 1"
  using assms by (simp add: get_next_def cf_ll_getNext_def)

lemma get_next_past_last:
  assumes "keys_arr aobj = Some b" and "keys_arr_offset aobj + 1 = num b"
  shows "fst (get_next aobj) = Some (num b)"
  using assms by (auto simp: get_next_def)

text \<open>
  C6. Successive calls of \<open>get_next\<close> ought to yield the indices \<open>0 .. num - 1\<close> of
  each batch in turn and then the end. They do not: the source increments the offset
  before it yields, also right after it has loaded the first batch, and tests for the
  end of a batch only after it has yielded the index \<open>num\<close>. On one batch with two
  valid entries the calls yield index 1, then index 2, then the end: index 0 is
  skipped and index 2 is no valid entry. On that batch followed by one with a single
  valid entry, the calls yield 1, 2, then 0 and 1 of the second batch, then the end.
\<close>

theorem get_next_skips_first_and_overruns:
  "num example_batch = 2
   \<and> get_next_calls 3 (example_cursor [example_batch]) = [Some 1, Some 2, None]
   \<and> num example_batch2 = 1
   \<and> get_next_calls 5 (example_cursor [example_batch, example_batch2]) =
       [Some 1, Some 2, Some 0, Some 1, None]"
  by (simp add: aggr_defs numeral_3_eq_3 eval_nat_numeral)

text \<open>
  Whenever no record is open and \<open>get_next\<close> yields an identifier, the loop of
  \<open>istream_read\<close> leaves with the null value.
\<close>

lemma istream_read_loop_identifier:
  assumes "\<not> rec_open aobj" and "fst (get_next aobj) = Some p"
  shows "istream_read_loop env aobj = Some (Inr False, snd (get_next aobj))"
proof -
  obtain a1 where "get_next aobj = (Some p, a1)"
    using assms(2) by (cases "get_next aobj") auto
  with assms(1) show ?thesis
    by (subst istream_read_loop.simps) simp
qed

text \<open>
  C1. \<open>read\<close> ought to end the stream exactly when there is no next identifier, and
  to open the record otherwise. It does not: the source tests
  \<open>if (get_next(aobj)) return NULL\<close>, so it ends the stream when there is a next
  identifier. On a cursor over one batch, \<open>get_next\<close> yields an identifier and
  \<open>read\<close> returns the null value without opening any record (no call is logged);
  on a cursor over no batch at all, \<open>get_next\<close> yields nothing and \<open>read\<close> goes
  on to read \<open>aobj->keys_arr->pindex_digs\<close> through the null \<open>keys_arr\<close>.
\<close>

theorem istream_read_ends_when_identifier_exists:
  "fst (get_next (aclose (example_cursor [example_batch]))) = Some 1
   \<and> map_option fst (istream_read example_aggr_env (example_cursor [example_batch])) =
       Some (Inr None)
   \<and> map_option (log \<circ> snd) (istream_read example_aggr_env (example_cursor [example_batch])) =
       Some []
   \<and> fst (get_next (aclose (example_cursor []))) = None
   \<and> map_option fst (istream_read example_aggr_env (example_cursor [])) =
       Some (Inl NULL_KEYS_ARR)"
  by (simp add: istream_read_def istream_read_loop.simps aggr_defs)

section \<open>Properties of the dispatcher\<close>

subsection \<open>What the helpers do to the state\<close>

lemma emit_simps:
  "events (emit e s) = events s @ [e]"
  "free_msgp (emit e s) = free_msgp s"
  "tr (emit e s) = tr s"
  by (simp_all add: emit_def)

lemma as_transaction_error_simps:
  "events (as_transaction_error ns c s) = events s @ [AS_TRANSACTION_ERROR ns c]"
  "free_msgp (as_transaction_error ns c s) = free_msgp s"
  "tr (as_transaction_error ns c s) = tr s"
  by (simp_all add: as_transaction_error_def emit_def)

lemma as_multi_rec_transaction_error_simps:
  "events (as_multi_rec_transaction_error c s) = events s @ [AS_MULTI_REC_TRANSACTION_ERROR c]"
  "free_msgp (as_multi_rec_transaction_error c s) = free_msgp s"
  "tr (as_multi_rec_transaction_error c s) = tr s"
  by (simp_all add: as_multi_rec_transaction_error_def emit_def)

lemma as_partition_release_simps:
  "events (as_partition_release s) = events s @ [AS_PARTITION_RELEASE (tr_rsv (tr s))]"
  "free_msgp (as_partition_release s) = free_msgp s"
  "tr (as_partition_release s) = tr s"
  by (simp_all add: as_partition_release_def emit_def)

lemma security_check_data_op_simps:
  "fst (security_check_data_op env p s) = (as_security_check_data_op env p = AS_PROTO_RESULT_OK)"
  "events (snd (security_check_data_op env p s)) = events s"
  "free_msgp (snd (security_check_data_op env p s)) = free_msgp s"
  "tr (snd (security_check_data_op env p s)) =
     (tr s)\<lparr>result_code :=
        (if as_security_check_data_op env p = AS_PROTO_RESULT_OK then result_code (tr s)
         else as_security_check_data_op env p)\<rparr>"
  by (simp_all add: security_check_data_op_def)

lemma data_op_permitted_simps:
  "events (snd (data_op_permitted env p s)) = events s"
  "free_msgp (snd (data_op_permitted env p s)) = free_msgp s"
  "tr (snd (data_op_permitted env p s)) =
     (tr s)\<lparr>result_code :=
        (if should_security_check_data_op (tr s)
            \<and> as_security_check_data_op env p \<noteq> AS_PROTO_RESULT_OK
         then as_security_check_data_op env p
         else result_code (tr s))\<rparr>"
  by (simp_all add: data_op_permitted_def security_check_data_op_def)

lemma reserve_simps:
  "fst (reserve env mode pid s) =
     (res_rv (reserve_answer env mode pid), res_dest (reserve_answer env mode pid),
      res_cluster_key (reserve_answer env mode pid))"
  "events (snd (reserve env mode pid s)) =
     events s @ [AS_PARTITION_RESERVE mode pid (res_rv (reserve_answer env mode pid))]"
  "free_msgp (snd (reserve env mode pid s)) = free_msgp s"
  "tr (snd (reserve env mode pid s)) =
     (tr s)\<lparr>tr_rsv := (if res_rv (reserve_answer env mode pid) = 0
                        then \<lparr>r_mode = mode, r_pid = pid,
                              n_dupl = res_n_dupl (reserve_answer env mode pid)\<rparr>
                        else tr_rsv (tr s))\<rparr>"
  by (simp_all add: reserve_def Let_def emit_def)

lemma reserve_answer_migrate:
  "res_rv (reserve_answer env RSV_MIGRATE pid) = 0"
  by (simp add: reserve_answer_def)

lemmas helper_simps =
  emit_simps as_transaction_error_simps as_multi_rec_transaction_error_simps
  as_partition_release_simps security_check_data_op_simps data_op_permitted_simps
  reserve_simps reserve_answer_migrate

subsection \<open>Properties kept from block to block\<close>

lemma and_then_inv:
  assumes "P (flow_state f)"
    and "\<And>x s. f = NEXT x s \<Longrightarrow> P s \<Longrightarrow> P (flow_state (g x s))"
  shows "P (flow_state (and_then f g))"
  using assms by (cases f) (simp_all add: and_then_def)

lemma and_then_ok:
  assumes "flow_ok P f"
    and "\<And>x s. f = NEXT x s \<Longrightarrow> P s \<Longrightarrow> flow_ok Q (g x s)"
    and "\<And>s. f = GOTO_CLEANUP s \<Longrightarrow> P s \<Longrightarrow> Q s"
  shows "flow_ok Q (and_then f g)"
  using assms by (cases f) (simp_all add: and_then_def)

lemma flow_ok_state: "P (flow_state f) \<Longrightarrow> flow_ok P f"
  by (cases f) simp_all

lemma from_digest_inv:
  assumes digest: "\<And>ns s. P s \<Longrightarrow> P (flow_state (single_record_digest env ns s))"
    and reserve: "\<And>ns s. P s \<Longrightarrow> P (flow_state (reserve_partition env ns s))"
    and succeeded: "\<And>s. P s \<Longrightarrow> P (flow_state (reservation_succeeded env s))"
    and failed: "\<And>ns dest ck s. P s \<Longrightarrow> P (flow_state (reservation_failed env ns dest ck s))"
    and start: "P s"
  shows "P (flow_state (from_digest env ns s))"
proof -
  have ar: "P (flow_state (after_reservation env n r s'))" if "P s'" for n r s'
    using that by (cases r) (simp add: after_reservation_def succeeded failed)
  have fr: "P (flow_state (from_reservation env n s'))" if "P s'" for n s'
    unfolding from_reservation_def
    by (rule and_then_inv) (simp_all add: that reserve ar)
  show ?thesis
    unfolding from_digest_def
    by (rule and_then_inv) (simp_all add: start digest fr)
qed

lemma single_record_transaction_inv:
  assumes deadline: "\<And>ns s. P s \<Longrightarrow> P (flow_state (single_record_deadline env ns s))"
    and digest: "\<And>ns s. P s \<Longrightarrow> P (flow_state (single_record_digest env ns s))"
    and reserve: "\<And>ns s. P s \<Longrightarrow> P (flow_state (reserve_partition env ns s))"
    and succeeded: "\<And>s. P s \<Longrightarrow> P (flow_state (reservation_succeeded env s))"
    and failed: "\<And>ns dest ck s. P s \<Longrightarrow> P (flow_state (reservation_failed env ns dest ck s))"
    and start: "P s"
  shows "P (flow_state (single_record_transaction env ns s))"
proof -
  have fd: "P (flow_state (from_digest env n s'))" if "P s'" for n s'
    using digest reserve succeeded failed that by (rule from_digest_inv)
  show ?thesis
    unfolding single_record_transaction_def
    by (rule and_then_inv) (simp_all add: start deadline fd)
qed

lemma process_transaction_body_inv:
  assumes auth: "\<And>s. P s \<Longrightarrow> P (flow_state (check_authenticated env s))"
    and nsp: "\<And>s. P s \<Longrightarrow> P (flow_state (get_namespace env s))"
    and balance: "\<And>ns s. P s \<Longrightarrow> P (flow_state (check_balance_resolved env ns s))"
    and multi: "\<And>ns s. P s \<Longrightarrow> P (multi_record_transaction env ns s)"
    and single: "\<And>ns s. P s \<Longrightarrow> P (flow_state (single_record_transaction env ns s))"
    and start: "P s"
  shows "P (flow_state (process_transaction_body env s))"
proof -
  have cl: "P (flow_state (classify env n s'))" if "P s'" for n s'
    using that by (simp add: classify_def multi single)
  have fb: "P (flow_state (from_balance env n s'))" if "P s'" for n s'
    unfolding from_balance_def
    by (rule and_then_inv) (simp_all add: that balance cl)
  have fn: "P (flow_state (from_namespace env u s'))" if "P s'" for u s'
    unfolding from_namespace_def
    by (rule and_then_inv) (simp_all add: that nsp fb)
  show ?thesis
    unfolding process_transaction_body_def
    by (rule and_then_inv) (simp_all add: start auth fn)
qed

subsection \<open>The message buffer\<close>

lemma msg_inv_check_authenticated:
  "msg_inv s \<Longrightarrow> msg_inv (flow_state (check_authenticated env s))"
  by (simp add: check_authenticated_def msg_inv_def helper_simps Let_def)

lemma msg_inv_get_namespace:
  "msg_inv s \<Longrightarrow> msg_inv (flow_state (get_namespace env s))"
  by (simp add: get_namespace_def msg_inv_def helper_simps split: option.splits)

lemma msg_inv_check_balance_resolved:
  "msg_inv s \<Longrightarrow> msg_inv (flow_state (check_balance_resolved env ns s))"
  by (simp add: check_balance_resolved_def msg_inv_def helper_simps)

lemma msg_inv_multi_record_transaction:
  "msg_inv s \<Longrightarrow> msg_inv (multi_record_transaction env ns s)"
  by (simp add: multi_record_transaction_def msg_inv_def helper_simps Let_def split_def)

lemma msg_inv_single_record_deadline:
  "msg_inv s \<Longrightarrow> msg_inv (flow_state (single_record_deadline env ns s))"
  by (simp add: single_record_deadline_def msg_inv_def helper_simps Let_def)

lemma msg_inv_single_record_digest:
  "msg_inv s \<Longrightarrow> msg_inv (flow_state (single_record_digest env ns s))"
  by (simp add: single_record_digest_def msg_inv_def helper_simps Let_def split: option.splits)

lemma msg_inv_reserve_partition:
  "msg_inv s \<Longrightarrow> msg_inv (flow_state (reserve_partition env ns s))"
  by (simp add: reserve_partition_def msg_inv_def helper_simps Let_def split_def)

lemma msg_inv_reservation_succeeded:
  "msg_inv s \<Longrightarrow> msg_inv (flow_state (reservation_succeeded env s))"
  by (simp add: reservation_succeeded_def msg_inv_def helper_simps Let_def split_def
      split: transaction_status.splits)

lemma msg_inv_reservation_failed:
  "msg_inv s \<Longrightarrow> msg_inv (flow_state (reservation_failed env ns dest ck s))"
  by (simp add: reservation_failed_def proxy_divert_def msg_inv_def helper_simps Let_def
      split: transaction_origin.splits)

lemma msg_inv_process_transaction_body:
  assumes "msg_inv s"
  shows "msg_inv (flow_state (process_transaction_body env s))"
proof (rule process_transaction_body_inv [where P = msg_inv])
  fix ns and s' :: tsvc_state
  assume "msg_inv s'"
  then show "msg_inv (flow_state (single_record_transaction env ns s'))"
    by (rule single_record_transaction_inv [where P = msg_inv, rotated -1])
      (simp_all add: msg_inv_single_record_deadline msg_inv_single_record_digest
        msg_inv_reserve_partition msg_inv_reservation_succeeded msg_inv_reservation_failed)
qed (simp_all add: assms msg_inv_check_authenticated msg_inv_get_namespace
    msg_inv_check_balance_resolved msg_inv_multi_record_transaction)

text \<open>The origin of the transaction is the same in every state of a run.\<close>

lemma origin_blocks:
  "origin (tr (flow_state (check_authenticated env s))) = origin (tr s)"
  "origin (tr (flow_state (get_namespace env s))) = origin (tr s)"
  "origin (tr (flow_state (check_balance_resolved env ns s))) = origin (tr s)"
  "origin (tr (multi_record_transaction env ns s)) = origin (tr s)"
  "origin (tr (flow_state (single_record_deadline env ns s))) = origin (tr s)"
  "origin (tr (flow_state (single_record_digest env ns s))) = origin (tr s)"
  "origin (tr (flow_state (reserve_partition env ns s))) = origin (tr s)"
  "origin (tr (flow_state (reservation_succeeded env s))) = origin (tr s)"
  "origin (tr (flow_state (reservation_failed env ns dest ck s))) = origin (tr s)"
          apply (simp add: check_authenticated_def helper_simps Let_def)
         apply (simp add: get_namespace_def helper_simps split: option.splits)
        apply (simp add: check_balance_resolved_def helper_simps)
       apply (simp add: multi_record_transaction_def helper_simps Let_def split_def)
      apply (simp add: single_record_deadline_def helper_simps Let_def)
     apply (simp add: single_record_digest_def helper_simps Let_def split: option.splits)
    apply (simp add: reserve_partition_def helper_simps Let_def split_def)
   apply (simp add: reservation_succeeded_def helper_simps Let_def split_def
      split: transaction_status.splits)
  apply (simp add: reservation_failed_def proxy_divert_def helper_simps Let_def
      split: transaction_origin.splits)
  done

lemma origin_process_transaction_body:
  "origin (tr (flow_state (process_transaction_body env s))) = origin (tr s)"
proof (rule process_transaction_body_inv [where P = "\<lambda>s'. origin (tr s') = origin (tr s)"])
  fix ns and s' :: tsvc_state
  assume "origin (tr s') = origin (tr s)"
  then show "origin (tr (flow_state (single_record_transaction env ns s'))) = origin (tr s)"
    by (rule single_record_transaction_inv
          [where P = "\<lambda>s'. origin (tr s') = origin (tr s)", rotated -1])
      (simp_all add: origin_blocks)
qed (simp_all add: origin_blocks)

lemma to_cleanup_returns:
  assumes "to_cleanup f = (None, s')"
  shows "s' = cleanup (flow_state f)"
  using assms by (cases f) (simp_all add: to_cleanup_def)

lemma process_transaction_returns:
  assumes "process_transaction env t = (None, t', evs)"
    and "proto_type t \<noteq> PROTO_TYPE_INTERNAL_XDR"
  obtains sb where
    "sb = flow_state (process_transaction_body env
            \<lparr>tr = as_transaction_init_body t, free_msgp = True, events = []\<rparr>)"
    "to_cleanup (process_transaction_body env
            \<lparr>tr = as_transaction_init_body t, free_msgp = True, events = []\<rparr>) = (None, cleanup sb)"
    "t' = tr (cleanup sb)" "evs = events (cleanup sb)"
proof -
  let ?b = "process_transaction_body env
              \<lparr>tr = as_transaction_init_body t, free_msgp = True, events = []\<rparr>"
  obtain f s' where fs: "to_cleanup ?b = (f, s')"
    by (cases "to_cleanup ?b") auto
  with assms have "f = None" "t' = tr s'" "evs = events s'"
    by (simp_all add: process_transaction_def)
  moreover from fs \<open>f = None\<close> have "s' = cleanup (flow_state ?b)"
    by (simp add: to_cleanup_returns)
  ultimately show ?thesis
    using fs that by simp
qed

text \<open>
  C2. On every run of the dispatcher that returns, the message buffer is freed exactly
  once, as the last thing the dispatcher does (at \<open>Cleanup\<close>), unless its ownership
  was transferred (to the XDR handler, to an executor that returned in-progress or
  waiting, to a scan or query that took the transaction over, to the fabric by a
  proxy divert that succeeded) or the origin is batch; in those cases the dispatcher
  does not free it at all.
\<close>

theorem msgp_freed_exactly_once:
  assumes run: "process_transaction env t = (None, t', evs)"
  shows "count_list evs CF_FREE_MSGP =
           (if list_ex transfers_msgp evs \<or> origin t = FROM_BATCH then 0 else 1)
         \<and> (CF_FREE_MSGP \<in> set evs \<longrightarrow> last evs = CF_FREE_MSGP)"
proof (cases "proto_type t = PROTO_TYPE_INTERNAL_XDR")
  case True
  with run have "evs = [AS_XDR_HANDLE_TXN]"
    by (simp add: process_transaction_def)
  then show ?thesis by simp
next
  case False
  define s0 where "s0 = \<lparr>tr = as_transaction_init_body t, free_msgp = True, events = []\<rparr>"
  from run False obtain sb where sb: "sb = flow_state (process_transaction_body env s0)"
    and evs: "evs = events (cleanup sb)"
    unfolding s0_def by (rule process_transaction_returns)
  have init: "msg_inv s0" "origin (tr s0) = origin t"
    by (simp_all add: s0_def msg_inv_def as_transaction_init_body_def)
  have inv: "msg_inv sb"
    unfolding sb using init(1) by (rule msg_inv_process_transaction_body)
  have org: "origin (tr sb) = origin t"
    unfolding sb using init(2) by (simp add: origin_process_transaction_body)
  have "evs = (if free_msgp sb \<and> origin t \<noteq> FROM_BATCH
               then events sb @ [CF_FREE_MSGP] else events sb)"
    using evs org by (simp add: cleanup_def emit_simps)
  moreover have "count_list (events sb) CF_FREE_MSGP = 0"
    using inv by (simp add: msg_inv_def)
  ultimately show ?thesis
    using inv by (auto simp: msg_inv_def)
qed

subsection \<open>The way to the single-record blocks\<close>

lemma passes_gates_body:
  assumes "passes_gates env t" and "the_namespace env t = Some ns"
  shows "process_transaction_body env \<lparr>tr = t, free_msgp = True, events = []\<rparr> =
         classify env ns \<lparr>tr = t, free_msgp = True, events = []\<rparr>"
  using assms
  by (auto simp: process_transaction_body_def from_namespace_def from_balance_def and_then_def
      check_authenticated_def get_namespace_def check_balance_resolved_def passes_gates_def
      the_namespace_def Let_def split: option.splits)

lemma single_record_digest_ready:
  assumes "digest_ready (tr s)"
  shows "single_record_digest env ns s =
         NEXT ns (s\<lparr>tr := (tr s)\<lparr>keyd := single_record_keyd env (tr s)\<rparr>\<rparr>)"
  using assms
  by (auto simp: single_record_digest_def digest_ready_def single_record_keyd_def
      set_bytes_read_def Let_def split: option.splits if_splits)

lemma end_time_irrelevant:
  "single_record_keyd env (t\<lparr>end_time := e\<rparr>) = single_record_keyd env t"
  "digest_ready (t\<lparr>end_time := e\<rparr>) = digest_ready t"
  by (simp_all add: single_record_keyd_def digest_ready_def set_bytes_read_def
      split: option.splits)

lemma single_record_deadline_eq:
  "single_record_deadline env ns s =
     (if deadline_of env (tr s) < cf_getns env
      then GOTO_CLEANUP
             (as_transaction_error (Some ns) AS_PROTO_RESULT_FAIL_TIMEOUT
                (s\<lparr>tr := (tr s)\<lparr>end_time := deadline_of env (tr s)\<rparr>\<rparr>))
      else NEXT ns (s\<lparr>tr := (tr s)\<lparr>end_time := deadline_of env (tr s)\<rparr>\<rparr>))"
  by (simp add: single_record_deadline_def deadline_of_def Let_def)

lemma reaches_reservation_body:
  assumes "reaches_reservation env t" and "the_namespace env t = Some ns"
  shows "process_transaction_body env \<lparr>tr = t, free_msgp = True, events = []\<rparr> =
         from_reservation env ns
           \<lparr>tr = t\<lparr>end_time := deadline_of env t, keyd := single_record_keyd env t\<rparr>,
            free_msgp = True, events = []\<rparr>"
proof -
  let ?s0 = "\<lparr>tr = t, free_msgp = True, events = []\<rparr>"
  let ?s1 = "\<lparr>tr = t\<lparr>end_time := deadline_of env t\<rparr>, free_msgp = True, events = []\<rparr>"
  from assms have gates: "passes_gates env t" and single: "\<not> as_transaction_is_multi_record t"
    and time: "\<not> deadline_of env t < cf_getns env" and dig: "digest_ready t"
    by (simp_all add: reaches_reservation_def)
  have "process_transaction_body env ?s0 = single_record_transaction env ns ?s0"
    using gates assms(2) single by (simp add: passes_gates_body classify_def)
  also have "single_record_deadline env ns ?s0 = NEXT ns ?s1"
    using time by (simp add: single_record_deadline_eq)
  then have "single_record_transaction env ns ?s0 = from_digest env ns ?s1"
    by (simp add: single_record_transaction_def and_then_def)
  also have "digest_ready (tr ?s1)"
    using dig by (simp add: end_time_irrelevant)
  then have "single_record_digest env ns ?s1 =
      NEXT ns (?s1\<lparr>tr := (tr ?s1)\<lparr>keyd := single_record_keyd env (tr ?s1)\<rparr>\<rparr>)"
    by (rule single_record_digest_ready)
  then have "from_digest env ns ?s1 =
      from_reservation env ns
        \<lparr>tr = t\<lparr>end_time := deadline_of env t, keyd := single_record_keyd env t\<rparr>,
         free_msgp = True, events = []\<rparr>"
    by (simp add: from_digest_def and_then_def end_time_irrelevant)
  finally show ?thesis .
qed

lemma to_cleanup_tr:
  assumes "to_cleanup f = (x, s')"
  shows "tr s' = tr (flow_state f)"
  using assms by (cases f) (auto simp: to_cleanup_def cleanup_def emit_simps)

lemma end_time_blocks:
  "end_time (tr (flow_state (single_record_digest env ns s))) = end_time (tr s)"
  "end_time (tr (flow_state (reserve_partition env ns s))) = end_time (tr s)"
  "end_time (tr (flow_state (reservation_succeeded env s))) = end_time (tr s)"
  "end_time (tr (flow_state (reservation_failed env ns dest ck s))) = end_time (tr s)"
     apply (simp add: single_record_digest_def helper_simps Let_def split: option.splits)
    apply (simp add: reserve_partition_def helper_simps Let_def split_def)
   apply (simp add: reservation_succeeded_def helper_simps Let_def split_def
      split: transaction_status.splits)
  apply (simp add: reservation_failed_def proxy_divert_def helper_simps Let_def
      split: transaction_origin.splits)
  done

lemma end_time_from_digest:
  "end_time (tr (flow_state (from_digest env ns s))) = end_time (tr s)"
  by (rule from_digest_inv [where P = "\<lambda>s'. end_time (tr s') = end_time (tr s)"])
    (simp_all add: end_time_blocks)

lemma end_time_single_record_transaction:
  "end_time (tr (flow_state (single_record_transaction env ns s))) = deadline_of env (tr s)"
  unfolding single_record_transaction_def
proof (rule and_then_inv)
  show "end_time (tr (flow_state (single_record_deadline env ns s))) = deadline_of env (tr s)"
    by (simp add: single_record_deadline_eq helper_simps)
next
  fix n and s' :: tsvc_state
  assume "end_time (tr s') = deadline_of env (tr s)"
  then show "end_time (tr (flow_state (from_digest env n s'))) = deadline_of env (tr s)"
    by (simp add: end_time_from_digest)
qed

text \<open>
  C5. For a single-record transaction, that is, one that passes the checks of lines
  84-129 and is not multi-record, the dispatcher sets
  \<open>end_time = start_time + transaction_ttl * 1000000\<close> when the message's
  \<open>transaction_ttl\<close> is not zero and \<open>end_time = start_time + transaction_max_ns\<close>
  when it is zero (64-bit unsigned arithmetic), and this is the deadline the
  transaction has when the dispatcher is done, however the run ends.
\<close>

theorem single_record_end_time:
  assumes "passes_gates env t" and "\<not> as_transaction_is_multi_record t"
    and "process_transaction env t = (f, t', evs)"
  shows "end_time t' =
           (if transaction_ttl (msg t) \<noteq> 0
            then start_time t + ucast (transaction_ttl (msg t)) * 1000000
            else start_time t + transaction_max_ns env)"
proof -
  let ?s0 = "\<lparr>tr = t, free_msgp = True, events = []\<rparr>"
  from assms(1) obtain ns where ns: "the_namespace env t = Some ns"
    by (auto simp: passes_gates_def)
  have body: "process_transaction_body env ?s0 = single_record_transaction env ns ?s0"
    using assms(1,2) ns by (simp add: passes_gates_body classify_def)
  from assms(1) have "proto_type t \<noteq> PROTO_TYPE_INTERNAL_XDR"
    by (simp add: passes_gates_def)
  with assms(3) obtain s' where "to_cleanup (process_transaction_body env ?s0) = (f, s')"
    and "t' = tr s'"
    by (auto simp: process_transaction_def as_transaction_init_body_def split: prod.splits)
  then have "t' = tr (flow_state (single_record_transaction env ns ?s0))"
    using body by (simp add: to_cleanup_tr)
  then have "end_time t' = deadline_of env t"
    by (simp add: end_time_single_record_transaction)
  then show ?thesis
    by (simp add: deadline_of_def)
qed

subsection \<open>The reservation\<close>

lemma rsv_track_append:
  "rsv_track h (xs @ ys) =
     (case rsv_track h xs of None \<Rightarrow> None | Some h' \<Rightarrow> rsv_track h' ys)"
  by (induction xs arbitrary: h) (simp_all split: option.splits)

lemmas rsv_simps = rsv_none_def rsv_held_def rsv_settled_def slot_of_def rsv_track_append

lemma rsv_none_settled: "rsv_none s \<Longrightarrow> rsv_settled s"
  by (simp add: rsv_none_def rsv_settled_def)

lemma rsv_none_check_authenticated:
  "rsv_none s \<Longrightarrow> rsv_none (flow_state (check_authenticated env s))"
  by (simp add: check_authenticated_def rsv_simps helper_simps Let_def)

lemma rsv_none_get_namespace:
  "rsv_none s \<Longrightarrow> rsv_none (flow_state (get_namespace env s))"
  by (simp add: get_namespace_def rsv_simps helper_simps split: option.splits)

lemma rsv_none_check_balance_resolved:
  "rsv_none s \<Longrightarrow> rsv_none (flow_state (check_balance_resolved env ns s))"
  by (simp add: check_balance_resolved_def rsv_simps helper_simps)

lemma rsv_none_multi_record_transaction:
  "rsv_none s \<Longrightarrow> rsv_none (multi_record_transaction env ns s)"
  by (simp add: multi_record_transaction_def rsv_simps helper_simps Let_def split_def)

lemma rsv_none_single_record_deadline:
  "rsv_none s \<Longrightarrow> rsv_none (flow_state (single_record_deadline env ns s))"
  by (simp add: single_record_deadline_def rsv_simps helper_simps Let_def)

lemma rsv_none_single_record_digest:
  "rsv_none s \<Longrightarrow> rsv_none (flow_state (single_record_digest env ns s))"
  by (simp add: single_record_digest_def rsv_simps helper_simps Let_def split: option.splits)

text \<open>
  After the reservation block the dispatcher holds the reservation in the slot exactly
  when the block hands on the return value 0.
\<close>

lemma rsv_reserve_partition:
  assumes "rsv_none s"
  shows "case reserve_partition env ns s of
           NEXT r s' \<Rightarrow> if fst r = 0 then rsv_held s' else rsv_none s'
         | GOTO_CLEANUP s' \<Rightarrow> rsv_none s'
         | FAULT e s' \<Rightarrow> True"
  using assms
  by (simp add: reserve_partition_def rsv_simps helper_simps Let_def split_def)

lemma rsv_reservation_succeeded:
  "rsv_held s \<Longrightarrow> flow_ok rsv_settled (reservation_succeeded env s)"
  by (simp add: reservation_succeeded_def rsv_simps helper_simps Let_def split_def
      split: transaction_status.splits)

lemma rsv_reservation_failed:
  "rsv_none s \<Longrightarrow> flow_ok rsv_settled (reservation_failed env ns dest ck s)"
  by (simp add: reservation_failed_def proxy_divert_def rsv_simps helper_simps Let_def
      split: transaction_origin.splits)

lemma rsv_from_reservation:
  assumes "rsv_none s"
  shows "flow_ok rsv_settled (from_reservation env ns s)"
proof (cases "reserve_partition env ns s")
  case (NEXT r s')
  obtain rv dest ck where r: "r = (rv, dest, ck)"
    by (cases r) auto
  from rsv_reserve_partition [OF assms, of env ns] NEXT r
  have "if rv = 0 then rsv_held s' else rsv_none s'"
    by simp
  then have "flow_ok rsv_settled (after_reservation env ns r s')"
    by (simp add: after_reservation_def r rsv_reservation_succeeded rsv_reservation_failed
        split: if_splits)
  with NEXT show ?thesis
    by (simp add: from_reservation_def and_then_def)
next
  case (GOTO_CLEANUP s')
  with rsv_reserve_partition [OF assms, of env ns] show ?thesis
    by (simp add: from_reservation_def and_then_def rsv_none_settled)
next
  case (FAULT e s')
  then show ?thesis
    by (simp add: from_reservation_def and_then_def)
qed

lemma rsv_single_record_transaction:
  assumes "rsv_none s"
  shows "flow_ok rsv_settled (single_record_transaction env ns s)"
proof -
  have fd: "flow_ok rsv_settled (from_digest env n s')" if "rsv_none s'" for n s'
    unfolding from_digest_def
    by (rule and_then_ok [where P = rsv_none])
      (simp_all add: that flow_ok_state rsv_none_single_record_digest rsv_from_reservation
        rsv_none_settled)
  show ?thesis
    unfolding single_record_transaction_def
    by (rule and_then_ok [where P = rsv_none])
      (simp_all add: assms flow_ok_state rsv_none_single_record_deadline fd rsv_none_settled)
qed

lemma rsv_process_transaction_body:
  assumes "rsv_none s"
  shows "flow_ok rsv_settled (process_transaction_body env s)"
proof -
  have cl: "flow_ok rsv_settled (classify env n s')" if "rsv_none s'" for n s'
    using that
    by (simp add: classify_def rsv_single_record_transaction rsv_none_settled
        rsv_none_multi_record_transaction)
  have fb: "flow_ok rsv_settled (from_balance env n s')" if "rsv_none s'" for n s'
    unfolding from_balance_def
    by (rule and_then_ok [where P = rsv_none])
      (simp_all add: that flow_ok_state rsv_none_check_balance_resolved cl rsv_none_settled)
  have fn: "flow_ok rsv_settled (from_namespace env u s')" if "rsv_none s'" for u s'
    unfolding from_namespace_def
    by (rule and_then_ok [where P = rsv_none])
      (simp_all add: that flow_ok_state rsv_none_get_namespace fb rsv_none_settled)
  show ?thesis
    unfolding process_transaction_body_def
    by (rule and_then_ok [where P = rsv_none])
      (simp_all add: assms flow_ok_state rsv_none_check_authenticated fn rsv_none_settled)
qed

lemma rsv_settled_cleanup: "rsv_settled s \<Longrightarrow> rsv_settled (cleanup s)"
  by (simp add: cleanup_def rsv_simps helper_simps split: option.splits)

text \<open>
  C3. On every run of the dispatcher that returns, each reservation it acquires (a
  reserve call that returns 0, or the migrate reservation) is matched by one release
  of that same reservation before anything else is reserved, and at the end nothing
  is held, except when the executor returned in-progress: then the dispatcher has
  not released the reservation in the slot, which now belongs to the executor. So the
  dispatcher releases after done-ok, done-error and waiting, and releases nothing
  after in-progress.
\<close>

theorem reservation_released_exactly_once:
  assumes run: "process_transaction env t = (None, t', evs)"
  shows "rsv_track None evs =
           Some (if list_ex hands_over_rsv evs
                 then Some (r_mode (tr_rsv t'), r_pid (tr_rsv t'))
                 else None)"
proof (cases "proto_type t = PROTO_TYPE_INTERNAL_XDR")
  case True
  with run have "evs = [AS_XDR_HANDLE_TXN]"
    by (simp add: process_transaction_def)
  then show ?thesis by simp
next
  case False
  define s0 where "s0 = \<lparr>tr = as_transaction_init_body t, free_msgp = True, events = []\<rparr>"
  from run False obtain sb where sb: "sb = flow_state (process_transaction_body env s0)"
    and ret: "to_cleanup (process_transaction_body env s0) = (None, cleanup sb)"
    and t': "t' = tr (cleanup sb)" and evs: "evs = events (cleanup sb)"
    unfolding s0_def by (rule process_transaction_returns)
  have "rsv_none s0"
    by (simp add: s0_def rsv_none_def)
  then have "flow_ok rsv_settled (process_transaction_body env s0)"
    by (rule rsv_process_transaction_body)
  with ret have "rsv_settled sb"
    unfolding sb by (cases "process_transaction_body env s0") (simp_all add: to_cleanup_def)
  then have "rsv_settled (cleanup sb)"
    by (rule rsv_settled_cleanup)
  then show ?thesis
    by (simp add: rsv_settled_def slot_of_def t' evs)
qed

subsection \<open>What is called from the reservation on\<close>

lemma start_executor_benchmark_time:
  "start_executor env (t\<lparr>benchmark_time := b\<rparr>) = start_executor env t"
  by (simp add: start_executor_def)


text \<open>
  The blocks after the reservation make no reserve call; they release only after a
  successful reservation, and then only the reservation in the slot; and after a
  successful reservation the first thing they do is to start the executor.
\<close>

lemma after_reservation_events:
  "\<exists>tail. events (flow_state (after_reservation env ns (rv, dest, ck) s)) = events s @ tail
      \<and> \<not> list_ex is_reserve tail
      \<and> (\<forall>r. AS_PARTITION_RELEASE r \<in> set tail \<longrightarrow> rv = 0 \<and> r = tr_rsv (tr s))
      \<and> (rv = 0 \<and> dest \<noteq> 0 \<longrightarrow>
           tail \<noteq> []
           \<and> hd tail = STARTED (fst (start_executor env (tr s))) (snd (start_executor env (tr s))))"
proof (cases "dest = 0")
  case True
  then show ?thesis
    by (simp add: after_reservation_def)
next
  case dest: False
  show ?thesis
  proof (cases "rv = 0")
    case True
    with dest show ?thesis
      by (simp add: after_reservation_def reservation_succeeded_def helper_simps Let_def
          split_def start_executor_benchmark_time split: transaction_status.splits)
  next
    case False
    with dest show ?thesis
      by (simp add: after_reservation_def reservation_failed_def proxy_divert_def
          helper_simps Let_def split: transaction_origin.splits)
  qed
qed

lemma to_cleanup_events:
  assumes "to_cleanup f = (x, s')"
  shows "\<exists>fin. events s' = events (flow_state f) @ fin \<and> (fin = [] \<or> fin = [CF_FREE_MSGP])"
  using assms by (cases f) (auto simp: to_cleanup_def cleanup_def emit_simps)

text \<open>
  The run of a transaction that reaches the reservation: the events are those of the
  reservation block, then those of the blocks after it, then perhaps the free.
\<close>

lemma run_from_reservation:
  assumes reach: "reaches_reservation env t" and ns: "the_namespace env t = Some ns"
    and run: "process_transaction env t = (f, t', evs)"
    and s2: "s2 = \<lparr>tr = t\<lparr>end_time := deadline_of env t, keyd := single_record_keyd env t\<rparr>,
                   free_msgp = True, events = []\<rparr>"
  shows "\<exists>s' fin. to_cleanup (from_reservation env ns s2) = (f, s') \<and> t' = tr s'
           \<and> evs = events s'
           \<and> evs = events (flow_state (from_reservation env ns s2)) @ fin
           \<and> (fin = [] \<or> fin = [CF_FREE_MSGP])"
proof -
  from reach have "proto_type t \<noteq> PROTO_TYPE_INTERNAL_XDR"
    by (simp add: reaches_reservation_def passes_gates_def)
  with run obtain s' where s': "to_cleanup (process_transaction_body env
       \<lparr>tr = t, free_msgp = True, events = []\<rparr>) = (f, s')" "t' = tr s'" "evs = events s'"
    by (auto simp: process_transaction_def as_transaction_init_body_def split: prod.splits)
  then have "to_cleanup (from_reservation env ns s2) = (f, s')"
    using reaches_reservation_body [OF reach ns] by (simp add: s2)
  with to_cleanup_events [OF this] s' show ?thesis
    by auto
qed

subsection \<open>Shipped operations\<close>

lemma reserve_partition_shipped_not_write:
  assumes "from_flags (tr s) AND FROM_FLAG_SHIPPED_OP \<noteq> 0"
    and "info2 (msg (tr s)) AND AS_MSG_INFO2_WRITE = 0"
  shows "reserve_partition env ns s =
         GOTO_CLEANUP (as_transaction_error (Some ns) AS_PROTO_RESULT_FAIL_UNKNOWN s)"
  using assms by (simp add: reserve_partition_def Let_def)

lemma reserve_partition_shipped_write:
  assumes "from_flags (tr s) AND FROM_FLAG_SHIPPED_OP \<noteq> 0"
    and "info2 (msg (tr s)) AND AS_MSG_INFO2_WRITE \<noteq> 0"
  shows "\<exists>tail. events (flow_state (reserve_partition env ns s)) =
           events s @ AS_PARTITION_RESERVE RSV_MIGRATE (as_partition_getid env (keyd (tr s))) 0 # tail
           \<and> \<not> list_ex is_reserve tail"
  using assms by (simp add: reserve_partition_def helper_simps Let_def split_def)

lemma from_reservation_events:
  "\<exists>tail. events (flow_state (from_reservation env ns s)) =
      events (flow_state (reserve_partition env ns s)) @ tail \<and> \<not> list_ex is_reserve tail"
proof (cases "reserve_partition env ns s")
  case (NEXT r s')
  obtain rv dest ck where "r = (rv, dest, ck)"
    by (cases r) auto
  with NEXT after_reservation_events [of env ns rv dest ck s'] show ?thesis
    by (auto simp: from_reservation_def and_then_def)
qed (simp_all add: from_reservation_def and_then_def)

text \<open>
  C9. A single-record transaction with the shipped-op flag that gets as far as the
  reservation: when its write bit is clear, the run is exactly one error reply
  \<open>FAIL_UNKNOWN\<close> and the free of the message (no free for a batch origin), so no
  reservation is acquired; when its write bit is set, the first call is the migrate
  reservation for the partition of the digest, and no other reserve call is made.
\<close>

theorem shipped_op_policy:
  assumes reach: "reaches_reservation env t" and ns: "the_namespace env t = Some ns"
    and shipped: "from_flags t AND FROM_FLAG_SHIPPED_OP \<noteq> 0"
  shows "(info2 (msg t) AND AS_MSG_INFO2_WRITE = 0 \<longrightarrow>
            process_transaction env t =
              (None,
               t\<lparr>end_time := deadline_of env t, keyd := single_record_keyd env t\<rparr>,
               AS_TRANSACTION_ERROR (Some ns) AS_PROTO_RESULT_FAIL_UNKNOWN
                 # (if origin t = FROM_BATCH then [] else [CF_FREE_MSGP])))
       \<and> (info2 (msg t) AND AS_MSG_INFO2_WRITE \<noteq> 0 \<longrightarrow>
            (\<exists>rest. snd (snd (process_transaction env t)) =
               AS_PARTITION_RESERVE RSV_MIGRATE
                 (as_partition_getid env (single_record_keyd env t)) 0 # rest
               \<and> \<not> list_ex is_reserve rest))"
proof (intro conjI impI)
  define s2 where "s2 = \<lparr>tr = t\<lparr>end_time := deadline_of env t,
      keyd := single_record_keyd env t\<rparr>, free_msgp = True, events = []\<rparr>"
  from reach have xdr: "proto_type t \<noteq> PROTO_TYPE_INTERNAL_XDR"
    by (simp add: reaches_reservation_def passes_gates_def)
  have body: "process_transaction_body env \<lparr>tr = t, free_msgp = True, events = []\<rparr> =
      from_reservation env ns s2"
    unfolding s2_def using reach ns by (rule reaches_reservation_body)
  {
    assume "info2 (msg t) AND AS_MSG_INFO2_WRITE = 0"
    with shipped have "reserve_partition env ns s2 =
        GOTO_CLEANUP (as_transaction_error (Some ns) AS_PROTO_RESULT_FAIL_UNKNOWN s2)"
      by (intro reserve_partition_shipped_not_write) (simp_all add: s2_def)
    then have "from_reservation env ns s2 =
        GOTO_CLEANUP (as_transaction_error (Some ns) AS_PROTO_RESULT_FAIL_UNKNOWN s2)"
      by (simp add: from_reservation_def and_then_def)
    with xdr body show "process_transaction env t =
        (None, t\<lparr>end_time := deadline_of env t, keyd := single_record_keyd env t\<rparr>,
         AS_TRANSACTION_ERROR (Some ns) AS_PROTO_RESULT_FAIL_UNKNOWN
           # (if origin t = FROM_BATCH then [] else [CF_FREE_MSGP]))"
      by (simp add: process_transaction_def as_transaction_init_body_def to_cleanup_def
          cleanup_def helper_simps s2_def)
  next
    assume w: "info2 (msg t) AND AS_MSG_INFO2_WRITE \<noteq> 0"
    obtain f t' evs where run: "process_transaction env t = (f, t', evs)"
      by (cases "process_transaction env t") auto
    from run_from_reservation [OF reach ns run s2_def]
    obtain fin where evs: "evs = events (flow_state (from_reservation env ns s2)) @ fin"
      and fin: "fin = [] \<or> fin = [CF_FREE_MSGP]"
      by auto
    from from_reservation_events [of env ns s2]
    obtain tail1 where t1: "events (flow_state (from_reservation env ns s2)) =
        events (flow_state (reserve_partition env ns s2)) @ tail1"
      "\<not> list_ex is_reserve tail1"
      by auto
    from shipped w reserve_partition_shipped_write [of s2 env ns]
    obtain tail0 where t0: "events (flow_state (reserve_partition env ns s2)) =
        AS_PARTITION_RESERVE RSV_MIGRATE (as_partition_getid env (single_record_keyd env t)) 0
          # tail0"
      "\<not> list_ex is_reserve tail0"
      by (auto simp: s2_def)
    have "evs = AS_PARTITION_RESERVE RSV_MIGRATE
        (as_partition_getid env (single_record_keyd env t)) 0 # (tail0 @ tail1 @ fin)"
      by (simp add: evs t1 t0)
    moreover have "\<not> list_ex is_reserve (tail0 @ tail1 @ fin)"
      using t0(2) t1(2) fin by auto
    ultimately show "\<exists>rest. snd (snd (process_transaction env t)) =
        AS_PARTITION_RESERVE RSV_MIGRATE
          (as_partition_getid env (single_record_keyd env t)) 0 # rest
        \<and> \<not> list_ex is_reserve rest"
      using run by auto
  }
qed

subsection \<open>Reads that find duplicates\<close>




subsection \<open>The digest of an old client's message\<close>







subsection \<open>The runs of the concrete inputs\<close>

lemmas tsvc_defs =
  process_transaction_def process_transaction_body_def from_namespace_def from_balance_def
  classify_def single_record_transaction_def from_digest_def from_reservation_def
  after_reservation_def and_then_def check_authenticated_def get_namespace_def
  check_balance_resolved_def single_record_deadline_def single_record_digest_def
  reserve_partition_def reservation_succeeded_def reservation_failed_def proxy_divert_def
  start_executor_def to_cleanup_def cleanup_def emit_def as_transaction_error_def
  as_partition_release_def reserve_def reserve_answer_def data_op_permitted_def
  security_check_data_op_def should_security_check_data_op_def as_transaction_init_body_def
  as_msg_field_get_def as_msg_field_get_value_sz_def AS_MSG_INFO1_READ_def
  AS_MSG_INFO2_WRITE_def FROM_FLAG_SHIPPED_OP_def Let_def

lemmas example_defs =
  example_env_def example_env_no_dupl_def example_env_write_refused_def example_read_def
  example_write_def example_shipped_read_def example_shipped_write_def
  example_key_no_set_def example_shipped_key_no_set_def example_key_and_set_def

lemma replicate_20: "replicate 20 x = x # replicate 19 x"
  by (simp add: numeral_eq_Suc)

lemma example_read_run:
  "process_transaction example_env example_read =
     (None,
      example_read\<lparr>end_time := 1000004000, keyd := replicate 20 7,
                     tr_rsv := \<lparr>r_mode = RSV_WRITE, r_pid = 7, n_dupl = 0\<rparr>\<rparr>,
      [AS_PARTITION_RESERVE RSV_READ 7 0,
       AS_PARTITION_RELEASE \<lparr>r_mode = RSV_READ, r_pid = 7, n_dupl = 2\<rparr>,
       AS_PARTITION_RESERVE RSV_WRITE 7 0,
       STARTED AS_READ_START TRANS_DONE_SUCCESS,
       AS_PARTITION_RELEASE \<lparr>r_mode = RSV_WRITE, r_pid = 7, n_dupl = 0\<rparr>,
       CF_FREE_MSGP])"
  by (simp add: tsvc_defs example_defs replicate_20)


lemma example_write_run:
  "process_transaction example_env example_write =
     (None,
      example_write\<lparr>end_time := 1000004000, keyd := replicate 20 7,
                      tr_rsv := \<lparr>r_mode = RSV_WRITE, r_pid = 7, n_dupl = 0\<rparr>\<rparr>,
      [AS_PARTITION_RESERVE RSV_WRITE 7 0, STARTED AS_WRITE_START TRANS_IN_PROGRESS])"
  by (simp add: tsvc_defs example_defs replicate_20)

lemma replicate_20_all:
  "replicate 20 x = [x, x, x, x, x, x, x, x, x, x, x, x, x, x, x, x, x, x, x, x]"
  by (simp add: numeral_eq_Suc)

lemma example_key_no_set_run:
  "process_transaction example_env example_key_no_set =
     (None,
      example_key_no_set\<lparr>end_time := 1000004000,
         keyd := [3, 107, 49, 0, 0, 0, 0, 0, 0, 0, 0, 0, 0, 0, 0, 0, 0, 0, 0, 0],
         tr_rsv := \<lparr>r_mode = RSV_WRITE, r_pid = 3, n_dupl = 0\<rparr>\<rparr>,
      [AS_PARTITION_RESERVE RSV_READ 3 0,
       AS_PARTITION_RELEASE \<lparr>r_mode = RSV_READ, r_pid = 3, n_dupl = 2\<rparr>,
       AS_PARTITION_RESERVE RSV_WRITE 3 0,
       STARTED AS_READ_START TRANS_DONE_SUCCESS,
       AS_PARTITION_RELEASE \<lparr>r_mode = RSV_WRITE, r_pid = 3, n_dupl = 0\<rparr>,
       CF_FREE_MSGP])"
  by (simp add: tsvc_defs example_defs replicate_20_all)


lemma example_write_refused_run:
  "process_transaction example_env_write_refused example_read =
     (None,
      example_read\<lparr>end_time := 1000004000, keyd := replicate 20 7,
                     tr_rsv := \<lparr>r_mode = RSV_READ, r_pid = 7, n_dupl = 2\<rparr>\<rparr>,
      [AS_PARTITION_RESERVE RSV_READ 7 0,
       AS_PARTITION_RELEASE \<lparr>r_mode = RSV_READ, r_pid = 7, n_dupl = 2\<rparr>,
       AS_PARTITION_RESERVE RSV_WRITE 7 (- 1),
       AS_PROXY_DIVERT 2 78 True])"
  by (simp add: tsvc_defs example_defs replicate_20)



lemma example_reaches_reservation:
  "reaches_reservation example_env example_read"
  "reaches_reservation example_env_no_dupl example_read"
  "reaches_reservation example_env example_shipped_read"
  "reaches_reservation example_env example_shipped_write"
  "the_namespace example_env example_shipped_read = Some 0"
  "the_namespace example_env example_shipped_write = Some 0"
  "reaches_reservation example_env example_key_no_set"
  "reaches_reservation example_env_write_refused example_read"
  "reaches_reservation example_env example_shipped_key_no_set"
  "the_namespace example_env example_shipped_key_no_set = Some 0"
  by (simp_all add: reaches_reservation_def passes_gates_def the_namespace_def deadline_of_def
      digest_ready_def as_msg_field_get_def as_msg_field_get_value_sz_def example_defs)

lemma example_partition:
  "as_partition_getid example_env (single_record_keyd example_env example_read) = 7"
  "as_partition_getid example_env_no_dupl (single_record_keyd example_env_no_dupl example_read) = 7"
  "as_partition_getid example_env (single_record_keyd example_env example_shipped_write) = 7"
  "as_partition_getid example_env (single_record_keyd example_env example_key_no_set) = 3"
  "as_partition_getid example_env_write_refused
     (single_record_keyd example_env_write_refused example_read) = 7"
  by (simp_all add: single_record_keyd_def set_bytes_read_def as_msg_field_get_def
      as_msg_field_get_value_sz_def example_defs replicate_20)

lemma example_shipped_read_values:
  "deadline_of example_env example_shipped_read = 1000004000"
  "single_record_keyd example_env example_shipped_read = replicate 20 7"
  "origin example_shipped_read = FROM_CLIENT"
  "deadline_of example_env example_shipped_key_no_set = 1000004000"
  "origin example_shipped_key_no_set = FROM_CLIENT"
  by (simp_all add: deadline_of_def single_record_keyd_def as_msg_field_get_def example_defs)

lemma example_origin:
  "origin example_read = FROM_CLIENT" "origin example_write = FROM_CLIENT"
  "origin example_key_no_set = FROM_CLIENT"
  by (simp_all add: example_defs)

theorem msgp_freed_exactly_once_witness:
  "fst (process_transaction example_env example_read) = None
   \<and> count_list (snd (snd (process_transaction example_env example_read))) CF_FREE_MSGP = 1
   \<and> last (snd (snd (process_transaction example_env example_read))) = CF_FREE_MSGP
   \<and> fst (process_transaction example_env example_write) = None
   \<and> count_list (snd (snd (process_transaction example_env example_write))) CF_FREE_MSGP = 0
   \<and> fst (process_transaction example_env example_key_no_set) = None
   \<and> count_list (snd (snd (process_transaction example_env example_key_no_set)))
         CF_FREE_MSGP = 1
   \<and> last (snd (snd (process_transaction example_env example_key_no_set))) = CF_FREE_MSGP"
  using msgp_freed_exactly_once [OF example_read_run]
    msgp_freed_exactly_once [OF example_write_run]
    msgp_freed_exactly_once [OF example_key_no_set_run]
  by (simp add: example_read_run example_write_run example_key_no_set_run example_origin)

theorem reservation_released_exactly_once_witness:
  "fst (process_transaction example_env example_read) = None
   \<and> rsv_track None (snd (snd (process_transaction example_env example_read))) = Some None
   \<and> fst (process_transaction example_env example_write) = None
   \<and> rsv_track None (snd (snd (process_transaction example_env example_write))) =
       Some (Some (RSV_WRITE, 7))
   \<and> fst (process_transaction example_env example_key_no_set) = None
   \<and> rsv_track None (snd (snd (process_transaction example_env example_key_no_set))) =
       Some None
   \<and> fst (process_transaction example_env_write_refused example_read) = None
   \<and> rsv_track None (snd (snd (process_transaction example_env_write_refused example_read))) =
       Some None"
  using reservation_released_exactly_once [OF example_read_run]
    reservation_released_exactly_once [OF example_write_run]
    reservation_released_exactly_once [OF example_key_no_set_run]
    reservation_released_exactly_once [OF example_write_refused_run]
  by (simp add: example_read_run example_write_run example_key_no_set_run
      example_write_refused_run)



theorem single_record_end_time_witness:
  "passes_gates example_env example_read
   \<and> \<not> as_transaction_is_multi_record example_read
   \<and> transaction_ttl (msg example_read) = 1000
   \<and> end_time (fst (snd (process_transaction example_env example_read))) = 4000 + 1000 * 1000000
   \<and> passes_gates example_env
        (example_read\<lparr>msg := (msg example_read)\<lparr>transaction_ttl := 0\<rparr>\<rparr>)
   \<and> end_time (fst (snd (process_transaction example_env
        (example_read\<lparr>msg := (msg example_read)\<lparr>transaction_ttl := 0\<rparr>\<rparr>)))) =
       4000 + 2000000000"
proof -
  let ?t0 = "example_read\<lparr>msg := (msg example_read)\<lparr>transaction_ttl := 0\<rparr>\<rparr>"
  have gates: "passes_gates example_env example_read" "passes_gates example_env ?t0"
    by (simp_all add: passes_gates_def the_namespace_def as_msg_field_get_def example_defs)
  have single: "\<not> as_transaction_is_multi_record example_read"
    "\<not> as_transaction_is_multi_record ?t0"
    by (simp_all add: example_defs)
  have "end_time (fst (snd (process_transaction example_env example_read))) =
      4000 + 1000 * 1000000"
    using single_record_end_time [OF gates(1) single(1) prod.collapse [symmetric, THEN trans,
          OF arg_cong [where f = "Pair _", OF prod.collapse [symmetric]]]]
    by (simp add: example_defs)
  moreover have "end_time (fst (snd (process_transaction example_env ?t0))) =
      4000 + 2000000000"
    using single_record_end_time [OF gates(2) single(2) prod.collapse [symmetric, THEN trans,
          OF arg_cong [where f = "Pair _", OF prod.collapse [symmetric]]]]
    by (simp add: example_defs)
  ultimately show ?thesis
    using gates single by (simp add: example_read_def)
qed

theorem shipped_op_policy_witness:
  "reaches_reservation example_env example_shipped_read
   \<and> from_flags example_shipped_read AND FROM_FLAG_SHIPPED_OP \<noteq> 0
   \<and> info2 (msg example_shipped_read) AND AS_MSG_INFO2_WRITE = 0
   \<and> fst (process_transaction example_env example_shipped_read) = None
   \<and> snd (snd (process_transaction example_env example_shipped_read)) =
       [AS_TRANSACTION_ERROR (Some 0) AS_PROTO_RESULT_FAIL_UNKNOWN, CF_FREE_MSGP]
   \<and> reaches_reservation example_env example_shipped_write
   \<and> from_flags example_shipped_write AND FROM_FLAG_SHIPPED_OP \<noteq> 0
   \<and> info2 (msg example_shipped_write) AND AS_MSG_INFO2_WRITE \<noteq> 0
   \<and> (\<exists>rest. snd (snd (process_transaction example_env example_shipped_write)) =
         AS_PARTITION_RESERVE RSV_MIGRATE 7 0 # rest
       \<and> \<not> list_ex is_reserve rest)
   \<and> reaches_reservation example_env example_shipped_key_no_set
   \<and> from_flags example_shipped_key_no_set AND FROM_FLAG_SHIPPED_OP \<noteq> 0
   \<and> info2 (msg example_shipped_key_no_set) AND AS_MSG_INFO2_WRITE = 0
   \<and> as_msg_field_get (msg example_shipped_key_no_set) AS_MSG_FIELD_TYPE_SET = None
   \<and> fst (process_transaction example_env example_shipped_key_no_set) = None
   \<and> snd (snd (process_transaction example_env example_shipped_key_no_set)) =
       [AS_TRANSACTION_ERROR (Some 0) AS_PROTO_RESULT_FAIL_UNKNOWN, CF_FREE_MSGP]"
proof -
  have flags: "from_flags example_shipped_read AND FROM_FLAG_SHIPPED_OP \<noteq> 0"
    "info2 (msg example_shipped_read) AND AS_MSG_INFO2_WRITE = 0"
    "from_flags example_shipped_write AND FROM_FLAG_SHIPPED_OP \<noteq> 0"
    "info2 (msg example_shipped_write) AND AS_MSG_INFO2_WRITE \<noteq> 0"
    "from_flags example_shipped_key_no_set AND FROM_FLAG_SHIPPED_OP \<noteq> 0"
    "info2 (msg example_shipped_key_no_set) AND AS_MSG_INFO2_WRITE = 0"
    "as_msg_field_get (msg example_shipped_key_no_set) AS_MSG_FIELD_TYPE_SET = None"
    by (simp_all add: example_defs as_msg_field_get_def FROM_FLAG_SHIPPED_OP_def
        AS_MSG_INFO2_WRITE_def)
  show ?thesis
    using shipped_op_policy [OF example_reaches_reservation(3) example_reaches_reservation(5)
        flags(1)]
      shipped_op_policy [OF example_reaches_reservation(4) example_reaches_reservation(6)
        flags(3)]
      shipped_op_policy [OF example_reaches_reservation(9) example_reaches_reservation(10)
        flags(5)]
    by (simp add: flags example_reaches_reservation example_partition
        example_shipped_read_values)
qed



section \<open>Properties of the queues\<close>

lemma smod_nonneg_pos: "0 \<le> (a::int) \<Longrightarrow> 0 < b \<Longrightarrow> a smod b = a mod b"
  by (simp add: smod_int_alt_def sgn_if)

text \<open>
  C8. In queue-per-device mode, for a namespace with \<open>n_devices > 0\<close>, the router
  picks the queue with index \<open>(digest[8] mod n_devices) + dev_q_offset\<close> when the read
  bit of the message is set, and adds \<open>n_devices\<close> when it is clear (a write); when
  that queue exists, the transaction is put at its end and 0 is returned.
\<close>

theorem queue_per_device_index:
  assumes mode: "use_queue_per_device plane"
    and devices: "0 < ns_n_devices ppeek"
    and digest: "length (pk_keyd ppeek) = 20"
    and n_q: "n_q = word_of_int
               (uint (pk_keyd ppeek ! 8) mod ns_n_devices ppeek + ns_queue_offset ppeek
                + (if pk_info1 ppeek AND AS_MSG_INFO1_READ \<noteq> 0 then 0
                   else ns_n_devices ppeek))"
    and queue: "unat n_q < length (g_transaction_queues plane)"
      "g_transaction_queues plane ! unat n_q = Some q"
  shows "thr_tsvc_enqueue_n_q plane ppeek = Inr (n_q, plane)
       \<and> thr_tsvc_enqueue plane ppeek True t =
           Inr (0, plane\<lparr>g_transaction_queues :=
                          (g_transaction_queues plane)[unat n_q := Some (q @ [t])]\<rparr>)"
proof -
  have "thr_tsvc_enqueue_n_q plane ppeek = Inr (n_q, plane)"
    using mode devices n_q by (simp add: thr_tsvc_enqueue_n_q_def smod_nonneg_pos)
  then show ?thesis
    using queue by (simp add: thr_tsvc_enqueue_def)
qed

theorem queue_per_device_index_witness:
  "use_queue_per_device example_plane
   \<and> ns_n_devices example_peek = 4
   \<and> ns_queue_offset example_peek = 10
   \<and> pk_keyd example_peek ! 8 = 9
   \<and> pk_info1 example_peek AND AS_MSG_INFO1_READ = 0
   \<and> thr_tsvc_enqueue_n_q example_plane example_peek = Inr (15, example_plane)
   \<and> thr_tsvc_enqueue example_plane example_peek True example_write =
       Inr (0, example_plane\<lparr>g_transaction_queues :=
                 (replicate 32 (Some []))[15 := Some [example_write]]\<rparr>)"
proof -
  have peek: "ns_n_devices example_peek = 4" "ns_queue_offset example_peek = 10"
    "pk_keyd example_peek ! 8 = 9" "pk_info1 example_peek AND AS_MSG_INFO1_READ = 0"
    "length (pk_keyd example_peek) = 20"
    by (simp_all add: example_peek_def)
  have plane: "use_queue_per_device example_plane"
    "g_transaction_queues example_plane = replicate 32 (Some [])"
    by (simp_all add: example_plane_def)
  have n_q: "(15 :: 32 word) = word_of_int
               (uint (pk_keyd example_peek ! 8) mod ns_n_devices example_peek
                + ns_queue_offset example_peek
                + (if pk_info1 example_peek AND AS_MSG_INFO1_READ \<noteq> 0 then 0
                   else ns_n_devices example_peek))"
    by (simp add: peek)
  have queue: "unat (15 :: 32 word) < length (g_transaction_queues example_plane)"
    "g_transaction_queues example_plane ! unat (15 :: 32 word) = Some []"
    by (simp_all add: plane)
  show ?thesis
    using queue_per_device_index [OF plane(1) _ peek(5) n_q queue, of example_write]
    by (simp add: peek plane)
qed


end
